theory Spec2Isabelle
  imports Complex_Main
begin

section \<open>Library functions the exporter calls\<close>

text \<open>
  Go strings are byte sequences; \<open>string\<close> (a list of \<open>char\<close>, each one byte) is
  the same thing. The functions of this section are those of Go's standard library and
  of the Prometheus client that the exporter calls, with the behaviour their
  documentation gives them.
\<close>

subsection \<open>strings.Split\<close>

text \<open>
  \<open>strings.Split(s, ",")\<close>: the substrings between the separators, one more than
  there are separators; the empty string gives one empty substring.
\<close>

fun Split :: "string \<Rightarrow> char \<Rightarrow> string list" where
  "Split [] sep = [[]]"
| "Split (c # cs) sep =
     (if c = sep then [] # Split cs sep
      else (case Split cs sep of [] \<Rightarrow> [[c]] | t # ts \<Rightarrow> (c # t) # ts))"

subsection \<open>strconv.Atoi\<close>

text \<open>
  \<open>strconv.Atoi\<close> reads an optional sign and then one or more decimal digits, nothing
  else, and fails when the value does not fit a 64-bit \<open>int\<close>. The exporter only asks
  whether it failed, so the failure carries no detail here.
\<close>

definition digit_val :: "char \<Rightarrow> nat option" where
  "digit_val c =
     (let n = (of_char c :: nat) in if 48 \<le> n \<and> n \<le> 57 then Some (n - 48) else None)"

fun parse_digits :: "string \<Rightarrow> nat \<Rightarrow> nat option" where
  "parse_digits [] acc = Some acc"
| "parse_digits (c # cs) acc =
     (case digit_val c of None \<Rightarrow> None | Some d \<Rightarrow> parse_digits cs (acc * 10 + d))"

definition Atoi :: "string \<Rightarrow> int option" where
  "Atoi s =
     (case s of
        [] \<Rightarrow> None
      | c # cs \<Rightarrow>
          (let body = (if c = CHR ''-'' \<or> c = CHR ''+'' then cs else s) in
           if body = [] then None
           else (case parse_digits body 0 of
                   None \<Rightarrow> None
                 | Some n \<Rightarrow>
                     (let v = (if c = CHR ''-'' then - int n else int n) in
                      if - (2 ^ 63) \<le> v \<and> v < 2 ^ 63 then Some v else None))))"

subsection \<open>Calls that may panic\<close>

text \<open>
  A Go call either returns or panics; a panic unwinds through the callers up to the one
  that recovers. \<open>called\<close> is the result of a call that may panic, \<open>outcome\<close> the way
  a procedure without a result ended.
\<close>

datatype 'a called = Returned 'a | Panicked

datatype outcome = Normal | Panic

subsection \<open>Prometheus descriptors and metrics\<close>

text \<open>
  A \<open>prometheus.Desc\<close> carries the fully qualified name, the help text and the names
  of the variable labels (the exporter gives no constant labels).
  \<open>prometheus.BuildFQName\<close> joins the non-empty parts with an underscore.
\<close>

record Desc =
  fqName :: string
  helpText :: string
  variableLabels :: "string list"

definition BuildFQName :: "string \<Rightarrow> string \<Rightarrow> string \<Rightarrow> string" where
  "BuildFQName ns subsystem name =
     (if name = [] then []
      else if ns \<noteq> [] \<and> subsystem \<noteq> [] then ns @ ''_'' @ subsystem @ ''_'' @ name
      else if ns \<noteq> [] then ns @ ''_'' @ name
      else if subsystem \<noteq> [] then subsystem @ ''_'' @ name
      else name)"

definition NewDesc :: "string \<Rightarrow> string \<Rightarrow> string list \<Rightarrow> Desc" where
  "NewDesc name doc labels = \<lparr>fqName = name, helpText = doc, variableLabels = labels\<rparr>"

text \<open>
  What travels on the channel of \<open>Collect\<close>: a constant metric made by
  \<open>MustNewConstMetric\<close> (always of gauge type here) with its descriptor, value and
  label values, or the scrape counter itself, read as the count it holds when it is sent.
  The type \<open>'f\<close> stands for \<open>float64\<close>. \<open>MustNewConstMetric\<close> panics when the
  number of label values is not the number of variable labels of the descriptor.
\<close>

datatype 'f Metric = ConstMetric Desc 'f "string list" | CounterMetric nat

definition MustNewConstMetric :: "Desc \<Rightarrow> 'f \<Rightarrow> string list \<Rightarrow> 'f Metric called" where
  "MustNewConstMetric desc v labelValues =
     (if length labelValues = length (variableLabels desc)
      then Returned (ConstMetric desc v labelValues)
      else Panicked)"

subsection \<open>time.Time, AddDate and Format\<close>

text \<open>
  A clock reading in the process's local calendar. \<open>AddDate\<close> adds to the fields and
  normalises as \<open>time.Date\<close> does: the month overflows into the year, and the day is
  counted on from the first of that month, so day 0 is the last day of the month before.
  The normalisation goes through the day number since 1970-01-01 and back.
\<close>

record Time =
  year :: int
  month :: int
  day :: int
  hour :: int
  minute :: int
  second :: int

definition daysSinceEpoch :: "int \<Rightarrow> int \<Rightarrow> int \<Rightarrow> int" where
  "daysSinceEpoch y m d =
     (let y1 = (if m \<le> 2 then y - 1 else y);
          era = y1 div 400;
          yoe = y1 - era * 400;
          doy = (153 * (if 2 < m then m - 3 else m + 9) + 2) div 5 + d - 1;
          doe = yoe * 365 + yoe div 4 - yoe div 100 + doy
      in era * 146097 + doe - 719468)"

definition absDate :: "int \<Rightarrow> int \<times> int \<times> int" where
  "absDate n =
     (let z = n + 719468;
          era = z div 146097;
          doe = z - era * 146097;
          yoe = (doe - doe div 1460 + doe div 36524 - doe div 146096) div 365;
          doy = doe - (365 * yoe + yoe div 4 - yoe div 100);
          mp = (5 * doy + 2) div 153;
          d = doy - (153 * mp + 2) div 5 + 1;
          m = (if mp < 10 then mp + 3 else mp - 9)
      in ((if m \<le> 2 then yoe + era * 400 + 1 else yoe + era * 400), m, d))"

definition Date :: "int \<Rightarrow> int \<Rightarrow> int \<Rightarrow> int \<Rightarrow> int \<Rightarrow> int \<Rightarrow> Time" where
  "Date y m d hh mm ss =
     (let y1 = y + (m - 1) div 12;
          m1 = (m - 1) mod 12 + 1;
          (y2, m2, d2) = absDate (daysSinceEpoch y1 m1 1 + (d - 1))
      in \<lparr>year = y2, month = m2, day = d2, hour = hh, minute = mm, second = ss\<rparr>)"

definition AddDate :: "Time \<Rightarrow> int \<Rightarrow> int \<Rightarrow> int \<Rightarrow> Time" where
  "AddDate t years months days =
     Date (year t + years) (month t + months) (day t + days) (hour t) (minute t) (second t)"

text \<open>
  \<open>Format("2006-01-02")\<close>: the year in at least four digits (a minus sign first when
  negative), the month and the day in two, with hyphens between.
\<close>

fun digits :: "nat \<Rightarrow> string" where
  "digits n =
     (if n < 10 then [''0123456789'' ! n]
      else digits (n div 10) @ [''0123456789'' ! (n mod 10)])"

declare digits.simps [simp del]

definition appendInt :: "int \<Rightarrow> nat \<Rightarrow> string" where
  "appendInt x width =
     (let ds = digits (nat \<bar>x\<bar>)
      in (if x < 0 then ''-'' else []) @ replicate (width - length ds) CHR ''0'' @ ds)"

definition Format :: "Time \<Rightarrow> string" where
  "Format t = appendInt (year t) 4 @ ''-'' @ appendInt (month t) 2 @ ''-'' @ appendInt (day t) 2"

section \<open>The exporter\<close>

subsection \<open>The catalog\<close>

definition namespace :: string where
  "namespace = ''aws_billing''"

definition serverLabelNames :: "string list" where
  "serverLabelNames = [''type'', ''unit'']"

definition newAwsBillingMetric :: "string \<Rightarrow> string \<Rightarrow> Desc" where
  "newAwsBillingMetric metricName docString =
     NewDesc (BuildFQName namespace ''server'' metricName) docString serverLabelNames"

text \<open>
  A Go map is a finite map; indexing it at a key it does not hold gives the zero value
  of the value type, which \<open>index_str\<close> does for maps to strings.
\<close>

definition prometheusMetrics :: "int \<rightharpoonup> Desc" where
  "prometheusMetrics =
     [1 \<mapsto> newAwsBillingMetric ''amortized_cost''
            ''This cost metric reflects the effective cost of the upfront and monthly reservation fees spread across the billing period..'',
      2 \<mapsto> newAwsBillingMetric ''blended_cost''
            ''This cost metric reflects the average cost of usage across the consolidated billing family.'',
      3 \<mapsto> newAwsBillingMetric ''net_amortized_cost''
            ''This cost metric amortizes the upfront and monthly reservation fees while including discounts such as RI volume discounts.'',
      4 \<mapsto> newAwsBillingMetric ''net_unblended_cost''
            ''This cost metric reflects the cost after discounts.'',
      5 \<mapsto> newAwsBillingMetric ''normalized_usage_amount''
            ''Cost of amount of resource consumption like CPU.'',
      6 \<mapsto> newAwsBillingMetric ''unblended_cost''
            ''Unblended costs separate discounts into their own line items. This enables you to view the amount of each discount received.'',
      7 \<mapsto> newAwsBillingMetric ''usage_quantity''
            ''Usage of quantity like data in GB.'']"

definition awsBillingUp :: Desc where
  "awsBillingUp =
     NewDesc (BuildFQName namespace [] ''up'') ''Was the last scrape of aws billing successful.'' []"

definition AWSMetrics :: "int \<rightharpoonup> string" where
  "AWSMetrics =
     [1 \<mapsto> ''AmortizedCost'',
      2 \<mapsto> ''BlendedCost'',
      3 \<mapsto> ''NetAmortizedCost'',
      4 \<mapsto> ''NetUnblendedCost'',
      5 \<mapsto> ''NormalizedUsageAmount'',
      6 \<mapsto> ''UnblendedCost'',
      7 \<mapsto> ''UsageQuantity'']"

definition index_str :: "('k \<rightharpoonup> string) \<Rightarrow> 'k \<Rightarrow> string" where
  "index_str m k = (case m k of None \<Rightarrow> [] | Some s \<Rightarrow> s)"

text \<open>
  \<open>for k, v := range m\<close> visits every key of the map once, in an order that Go leaves
  open and that may differ from one loop to the next. Each loop of the model takes the
  order of its visit as a list of keys; \<open>range_order m ks\<close> says that \<open>ks\<close> is such
  an order for \<open>m\<close>.
\<close>

definition range_order :: "('k \<rightharpoonup> 'v) \<Rightarrow> 'k list \<Rightarrow> bool" where
  "range_order m ks \<longleftrightarrow> distinct ks \<and> set ks = dom m"

subsection \<open>The cost service and the clock\<close>

text \<open>
  Modelled from the spec: the type declarations of the cost service's request and
  response (the SDK's \<open>GetCostAndUsageInput\<close>, \<open>GetCostAndUsageOutput\<close>,
  \<open>ResultByTime\<close> and \<open>MetricValue\<close>) are not among the sources. The spec gives the
  response as an ordered sequence of buckets, each a mapping from the metric name to an
  item with an amount (a decimal as a string) and a unit (a string), and the request as
  the metric names, the granularity and the time window.

  \<open>scrape\<close> reads the amount and the unit of an item through a pointer
  (\<open>*cost.Amount\<close>, \<open>*cost.Unit\<close>), and a pointer may be nil: the two fields are
  \<open>string option\<close>, with \<open>None\<close> for nil.
\<close>

record MetricValue =
  Amount :: "string option"
  Unit :: "string option"

record ResultByTime =
  Total :: "string \<rightharpoonup> MetricValue"

record GetCostAndUsageOutput =
  ResultsByTime :: "ResultByTime list"

record DateInterval =
  Start :: string
  End :: string

record GetCostAndUsageInput =
  Metrics :: "string list"
  Granularity :: string
  TimePeriod :: DateInterval

datatype error =
  Invalid_field string
  | Service_error string

text \<open>
  The world outside the process: the clock, of which \<open>time.Now()\<close> takes one reading
  after the other, and the cost service, which answers a request from its state \<open>'c\<close>
  and keeps the requests it has received.
\<close>

record 'c world =
  clock :: "nat \<Rightarrow> Time"
  readings :: nat
  service :: 'c
  respond :: "'c \<Rightarrow> GetCostAndUsageInput \<Rightarrow> (error + GetCostAndUsageOutput) \<times> 'c"
  requests :: "GetCostAndUsageInput list"

definition Now :: "'c world \<Rightarrow> Time \<times> 'c world" where
  "Now w = (clock w (readings w), w\<lparr>readings := readings w + 1\<rparr>)"

definition GetCostAndUsage ::
  "'c world \<Rightarrow> GetCostAndUsageInput \<Rightarrow> (error + GetCostAndUsageOutput) \<times> 'c world" where
  "GetCostAndUsage w input =
     (let (r, c) = respond w (service w) input
      in (r, w\<lparr>service := c, requests := requests w @ [input]\<rparr>))"

subsection \<open>fetchHTTP\<close>

text \<open>
  \<open>fetchHTTP\<close> opens the session, where \<open>session.Must\<close> panics on the error of
  \<open>session.NewSession()\<close> (the argument \<open>sess\<close>: \<open>None\<close> when the session came
  up), and returns the closure that \<open>scrape\<close> calls. The closure reads the clock
  twice, once for each end of the time period and in this order, sends one request and
  hands back what the service answered.
\<close>

definition fetchHTTP_closure ::
  "string list \<Rightarrow> 'c world \<Rightarrow> (error + GetCostAndUsageOutput) called \<times> 'c world" where
  "fetchHTTP_closure metrics w =
     (let (t1, w1) = Now w;
          (t2, w2) = Now w1;
          input = \<lparr>Metrics = metrics, Granularity = ''DAILY'',
                   TimePeriod = \<lparr>Start = Format (AddDate t1 0 0 (- 1)), End = Format t2\<rparr>\<rparr>;
          (r, w3) = GetCostAndUsage w2 input
      in (case r of
            Inl err \<Rightarrow> (Returned (Inl err), w3)
          | Inr resp \<Rightarrow> (Returned (Inr resp), w3)))"

definition fetchHTTP ::
  "error option \<Rightarrow> string list \<Rightarrow>
     ('c world \<Rightarrow> (error + GetCostAndUsageOutput) called \<times> 'c world) called" where
  "fetchHTTP sess metrics =
     (case sess of Some err \<Rightarrow> Panicked | None \<Rightarrow> Returned (fetchHTTP_closure metrics))"

subsection \<open>The exporter and its construction\<close>

text \<open>
  The fields of \<open>Exporter\<close> that its methods use: the fetch function (any function of
  the outside world \<open>'w\<close> that returns a response or an error, or panics), the scrape
  counter and the enabled descriptors. The counter is the client library's, which
  \<open>Inc\<close> raises by one. The mutex is taken and released around the body of
  \<open>Collect\<close>, and the gauge object \<open>up\<close> is made by the constructor and not touched
  again; neither has a field here.
\<close>

record 'w Exporter =
  fetch :: "'w \<Rightarrow> (error + GetCostAndUsageOutput) called \<times> 'w"
  totalScrapes :: nat
  prometheusMetrics_field :: "int \<rightharpoonup> Desc"

definition Inc :: "'w Exporter \<Rightarrow> 'w Exporter" where
  "Inc e = e\<lparr>totalScrapes := totalScrapes e + 1\<rparr>"

text \<open>The loop of \<open>NewExporter\<close> over \<open>AWSMetrics\<close>, visited in the order \<open>ord\<close>.\<close>

fun all_names :: "int list \<Rightarrow> string list \<Rightarrow> string list" where
  "all_names [] selected = selected"
| "all_names (k # ks) selected =
     (case AWSMetrics k of
        None \<Rightarrow> all_names ks selected
      | Some v \<Rightarrow> all_names ks (selected @ [v]))"

text \<open>The loop of \<open>NewExporter\<close> over the fields of the filter.\<close>

fun selected_names :: "string list \<Rightarrow> string list \<Rightarrow> error + string list" where
  "selected_names [] selected = Inr selected"
| "selected_names (f # fs) selected =
     (case Atoi f of
        None \<Rightarrow> Inl (Invalid_field f)
      | Some field \<Rightarrow> selected_names fs (selected @ [index_str AWSMetrics field]))"

definition NewExporter ::
  "int list \<Rightarrow> error option \<Rightarrow> string \<Rightarrow> (int \<rightharpoonup> Desc) \<Rightarrow> (error + 'c world Exporter) called" where
  "NewExporter ord sess filter_str selectedServerMetrics =
     (case (if length filter_str = 0 then Inr (all_names ord [])
            else selected_names (Split filter_str CHR '','') []) of
        Inl err \<Rightarrow> Returned (Inl err)
      | Inr selected \<Rightarrow>
          (case fetchHTTP sess selected of
             Panicked \<Rightarrow> Panicked
           | Returned f \<Rightarrow>
               Returned (Inr \<lparr>fetch = f, totalScrapes = 0,
                               prometheusMetrics_field = selectedServerMetrics\<rparr>)))"

subsection \<open>filterServerMetrics\<close>

text \<open>The first loop: the fields of the filter, as a set of integers.\<close>

fun selected_fields :: "string list \<Rightarrow> int set \<Rightarrow> error + int set" where
  "selected_fields [] selected = Inr selected"
| "selected_fields (f # fs) selected =
     (case Atoi f of
        None \<Rightarrow> Inl (Invalid_field f)
      | Some field \<Rightarrow> selected_fields fs (insert field selected))"

text \<open>The second loop: over the catalog, visited in the order \<open>ord\<close>.\<close>

fun pick_metrics :: "int set \<Rightarrow> int list \<Rightarrow> (int \<rightharpoonup> Desc) \<Rightarrow> (int \<rightharpoonup> Desc)" where
  "pick_metrics selected [] metrics = metrics"
| "pick_metrics selected (field # rest) metrics =
     (case prometheusMetrics field of
        None \<Rightarrow> pick_metrics selected rest metrics
      | Some metric \<Rightarrow>
          pick_metrics selected rest
            (if field \<in> selected then metrics(field \<mapsto> metric) else metrics))"

definition filterServerMetrics :: "int list \<Rightarrow> string \<Rightarrow> error + (int \<rightharpoonup> Desc)" where
  "filterServerMetrics ord filter_str =
     (if length filter_str = 0 then Inr Map.empty
      else (case selected_fields (Split filter_str CHR '','') {} of
              Inl err \<Rightarrow> Inl err
            | Inr selected \<Rightarrow> Inr (pick_metrics selected ord Map.empty)))"

subsection \<open>scrape and Collect\<close>

text \<open>
  What one call of \<open>Collect\<close> works on: the exporter, the world outside, the channel
  (the metrics sent so far, oldest first) and the error log. The state also keeps, in
  \<open>steps\<close>, the order in which the counter was raised and the fetch function called:
  \<open>Fetch_called n\<close> stands for a call of the fetch function made while the counter
  read \<open>n\<close>.
\<close>

datatype step = Counter_incremented | Fetch_called nat

record ('w, 'f) state =
  exporter :: "'w Exporter"
  world :: 'w
  ch :: "'f Metric list"
  logged :: "error list"
  steps :: "step list"

text \<open>\<open>e.totalScrapes.Inc()\<close> and \<open>e.fetch()\<close>, as steps on the state.\<close>

definition inc_totalScrapes :: "('w, 'f) state \<Rightarrow> ('w, 'f) state" where
  "inc_totalScrapes s =
     s\<lparr>exporter := Inc (exporter s), steps := steps s @ [Counter_incremented]\<rparr>"

definition call_fetch ::
  "('w, 'f) state \<Rightarrow> (error + GetCostAndUsageOutput) called \<times> ('w, 'f) state" where
  "call_fetch s =
     (case fetch (exporter s) (world s) of
        (r, w) \<Rightarrow>
          (r, s\<lparr>world := w,
                 steps := steps s @ [Fetch_called (totalScrapes (exporter s))]\<rparr>))"

text \<open>
  The inner loop of \<open>scrape\<close> for one enabled metric: over the cost items of the
  bucket, visited in the order \<open>cs\<close>. \<open>name\<close> is \<open>AWSMetrics[key]\<close>, \<open>metric\<close> the
  descriptor, \<open>ParseFloat\<close> stands for \<open>strconv.ParseFloat(_, 64)\<close> (\<open>None\<close> when it
  returns an error). \<open>*cost.Amount\<close> panics on a nil amount, before the amount is
  parsed; \<open>*cost.Unit\<close> panics on a nil unit, once the amount has parsed and before
  the metric is made. A panic leaves the channel as it was when it struck.
\<close>

fun scan_costs ::
  "(string \<Rightarrow> 'f option) \<Rightarrow> string \<Rightarrow> Desc \<Rightarrow> (string \<rightharpoonup> MetricValue) \<Rightarrow> string list \<Rightarrow>
     'f Metric list \<Rightarrow> 'f Metric list \<times> outcome" where
  "scan_costs ParseFloat name metric costs [] c = (c, Normal)"
| "scan_costs ParseFloat name metric costs (awsCostKey # rest) c =
     (case costs awsCostKey of
        None \<Rightarrow> scan_costs ParseFloat name metric costs rest c
      | Some cost \<Rightarrow>
          if awsCostKey = name then
            (case Amount cost of
               None \<Rightarrow> (c, Panic)
             | Some amount \<Rightarrow>
                 (case ParseFloat amount of
                    None \<Rightarrow> scan_costs ParseFloat name metric costs rest c
                  | Some f \<Rightarrow>
                      (case Unit cost of
                         None \<Rightarrow> (c, Panic)
                       | Some unit \<Rightarrow>
                           (case MustNewConstMetric metric f [awsCostKey, unit] of
                              Panicked \<Rightarrow> (c, Panic)
                            | Returned m \<Rightarrow>
                                scan_costs ParseFloat name metric costs rest (c @ [m])))))
          else scan_costs ParseFloat name metric costs rest c)"

text \<open>
  The outer loop: over the enabled descriptors, visited in the order \<open>ks\<close>; \<open>inner key\<close>
  is the order in which the inner loop of that round visits the bucket. Each round
  indexes \<open>ResultsByTime\<close> at 0 anew, which panics when the list is empty.
\<close>

fun scan_metrics ::
  "(string \<Rightarrow> 'f option) \<Rightarrow> (int \<rightharpoonup> Desc) \<Rightarrow> GetCostAndUsageOutput \<Rightarrow> (int \<Rightarrow> string list) \<Rightarrow>
     int list \<Rightarrow> 'f Metric list \<Rightarrow> 'f Metric list \<times> outcome" where
  "scan_metrics ParseFloat pm response inner [] c = (c, Normal)"
| "scan_metrics ParseFloat pm response inner (key # keys) c =
     (case pm key of
        None \<Rightarrow> scan_metrics ParseFloat pm response inner keys c
      | Some metric \<Rightarrow>
          (case ResultsByTime response of
             [] \<Rightarrow> (c, Panic)
           | bucket # later \<Rightarrow>
               (case scan_costs ParseFloat (index_str AWSMetrics key) metric (Total bucket)
                       (inner key) c of
                  (c1, Panic) \<Rightarrow> (c1, Panic)
                | (c1, Normal) \<Rightarrow> scan_metrics ParseFloat pm response inner keys c1)))"

definition scrape ::
  "(string \<Rightarrow> 'f option) \<Rightarrow> int list \<Rightarrow> (int \<Rightarrow> string list) \<Rightarrow> ('w, 'f) state \<Rightarrow>
     ('w, 'f :: {zero, one}) state \<times> 'f called" where
  "scrape ParseFloat ks inner s =
     (let s1 = inc_totalScrapes s in
      case call_fetch s1 of
        (Panicked, s2) \<Rightarrow> (s2, Panicked)
      | (Returned (Inl err), s2) \<Rightarrow> (s2\<lparr>logged := logged s2 @ [err]\<rparr>, Returned 0)
      | (Returned (Inr response), s2) \<Rightarrow>
          (case scan_metrics ParseFloat (prometheusMetrics_field (exporter s2)) response inner
                  ks (ch s2) of
             (c, Panic) \<Rightarrow> (s2\<lparr>ch := c\<rparr>, Panicked)
           | (c, Normal) \<Rightarrow> (s2\<lparr>ch := c\<rparr>, Returned 1)))"

text \<open>
  \<open>Collect\<close> runs \<open>scrape\<close>, then sends the gauge \<open>up\<close> with what \<open>scrape\<close>
  returned and the scrape counter. A panic of \<open>scrape\<close> goes on through \<open>Collect\<close>
  (the deferred unlock runs, nothing more is sent).
\<close>

definition Collect ::
  "(string \<Rightarrow> 'f option) \<Rightarrow> int list \<Rightarrow> (int \<Rightarrow> string list) \<Rightarrow> ('w, 'f) state \<Rightarrow>
     ('w, 'f :: {zero, one}) state \<times> outcome" where
  "Collect ParseFloat ks inner s =
     (case scrape ParseFloat ks inner s of
        (s1, Panicked) \<Rightarrow> (s1, Panic)
      | (s1, Returned up) \<Rightarrow>
          (case MustNewConstMetric awsBillingUp up [] of
             Panicked \<Rightarrow> (s1, Panic)
           | Returned m \<Rightarrow>
               (s1\<lparr>ch := ch s1 @ [m, CounterMetric (totalScrapes (exporter s1))]\<rparr>, Normal)))"

section \<open>What a scrape is expected to send\<close>

text \<open>
  The cost sample of one descriptor for one bucket, as a list of none or one: the item
  of the bucket under the descriptor's AWS name, when there is one, it has an amount
  that parses and it has a unit, with the labels \<open>type\<close> (that name) and \<open>unit\<close>
  (the item's unit).
\<close>

definition item_sample ::
  "(string \<Rightarrow> 'f option) \<Rightarrow> string \<Rightarrow> Desc \<Rightarrow> (string \<rightharpoonup> MetricValue) \<Rightarrow> 'f Metric list" where
  "item_sample ParseFloat name metric costs =
     (case costs name of
        None \<Rightarrow> []
      | Some cost \<Rightarrow>
          (case Amount cost of
             None \<Rightarrow> []
           | Some amount \<Rightarrow>
               (case ParseFloat amount of
                  None \<Rightarrow> []
                | Some f \<Rightarrow>
                    (case Unit cost of
                       None \<Rightarrow> []
                     | Some unit \<Rightarrow> [ConstMetric metric f [name, unit]]))))"

definition key_samples ::
  "(string \<Rightarrow> 'f option) \<Rightarrow> (int \<rightharpoonup> Desc) \<Rightarrow> ResultByTime \<Rightarrow> int \<Rightarrow> 'f Metric list" where
  "key_samples ParseFloat pm bucket key =
     (case pm key of
        None \<Rightarrow> []
      | Some metric \<Rightarrow> item_sample ParseFloat (index_str AWSMetrics key) metric (Total bucket))"

text \<open>The constant metrics of a descriptor among the metrics sent.\<close>

definition samples_for :: "Desc \<Rightarrow> 'f Metric list \<Rightarrow> 'f Metric list" where
  "samples_for desc ms =
     filter (\<lambda>m. case m of ConstMetric d v ls \<Rightarrow> d = desc | CounterMetric n \<Rightarrow> False) ms"

text \<open>
  An item that \<open>scrape\<close> can read without a panic: it has an amount and, when the
  amount parses, a unit. A bucket is readable for a selection of descriptors when the
  items under the AWS names of the selection are.
\<close>

definition item_complete :: "(string \<Rightarrow> 'f option) \<Rightarrow> MetricValue \<Rightarrow> bool" where
  "item_complete ParseFloat cost =
     (case Amount cost of
        None \<Rightarrow> False
      | Some amount \<Rightarrow>
          (case ParseFloat amount of None \<Rightarrow> True | Some f \<Rightarrow> Unit cost \<noteq> None))"

definition bucket_complete ::
  "(string \<Rightarrow> 'f option) \<Rightarrow> (int \<rightharpoonup> Desc) \<Rightarrow> ResultByTime \<Rightarrow> bool" where
  "bucket_complete ParseFloat pm bucket \<longleftrightarrow>
     (\<forall>key cost. key \<in> dom pm \<and> Total bucket (index_str AWSMetrics key) = Some cost \<longrightarrow>
        item_complete ParseFloat cost)"

section \<open>Concrete exporters, services and responses\<close>

text \<open>
  The data the witnesses and counterexamples below run on. \<open>parse_decimal\<close> reads
  plain decimals (digits, or digits, a point and digits) exactly, into the reals; it
  takes the place of \<open>ParseFloat\<close> where a theorem is run on a concrete input.
\<close>

definition parse_decimal :: "string \<Rightarrow> real option" where
  "parse_decimal a =
     (case Split a CHR ''.'' of
        [ip] \<Rightarrow> (if ip = [] then None else map_option real (parse_digits ip 0))
      | [ip, fp] \<Rightarrow>
          (if ip = [] \<or> fp = [] then None
           else (case (parse_digits ip 0, parse_digits fp 0) of
                   (Some i, Some f) \<Rightarrow> Some (real i + real f / 10 ^ length fp)
                 | _ \<Rightarrow> None))
      | _ \<Rightarrow> None)"

text \<open>A fetch function that answers with a fixed response, one that fails and one that
  panics.\<close>

definition answers ::
  "GetCostAndUsageOutput \<Rightarrow> unit \<Rightarrow> (error + GetCostAndUsageOutput) called \<times> unit" where
  "answers r w = (Returned (Inr r), w)"

definition fails :: "error \<Rightarrow> unit \<Rightarrow> (error + GetCostAndUsageOutput) called \<times> unit" where
  "fails err w = (Returned (Inl err), w)"

definition panics :: "unit \<Rightarrow> (error + GetCostAndUsageOutput) called \<times> unit" where
  "panics w = (Panicked, w)"

text \<open>The state before the first scrape of an exporter with the given fetch function
  and descriptors: nothing counted, nothing sent, nothing logged, no step made.\<close>

definition fresh ::
  "('w \<Rightarrow> (error + GetCostAndUsageOutput) called \<times> 'w) \<Rightarrow> (int \<rightharpoonup> Desc) \<Rightarrow> 'w \<Rightarrow>
     ('w, real) state" where
  "fresh f pm w =
     \<lparr>exporter = \<lparr>fetch = f, totalScrapes = 0, prometheusMetrics_field = pm\<rparr>,
      world = w, ch = [], logged = [], steps = []\<rparr>"

definition blended_bucket :: ResultByTime where
  "blended_bucket =
     \<lparr>Total = [''BlendedCost'' \<mapsto> \<lparr>Amount = Some ''12.34'', Unit = Some ''USD''\<rparr>]\<rparr>"

definition mixed_bucket :: ResultByTime where
  "mixed_bucket =
     \<lparr>Total = [''BlendedCost'' \<mapsto> \<lparr>Amount = Some ''n/a'', Unit = Some ''USD''\<rparr>,
               ''UnblendedCost'' \<mapsto> \<lparr>Amount = Some ''1.5'', Unit = Some ''USD''\<rparr>]\<rparr>"

text \<open>Two buckets with a nil pointer: an item without an amount, an item without a
  unit.\<close>

definition no_amount_bucket :: ResultByTime where
  "no_amount_bucket =
     \<lparr>Total = [''BlendedCost'' \<mapsto> \<lparr>Amount = Some ''12.34'', Unit = Some ''USD''\<rparr>,
               ''UnblendedCost'' \<mapsto> \<lparr>Amount = None, Unit = Some ''USD''\<rparr>]\<rparr>"

definition no_unit_bucket :: ResultByTime where
  "no_unit_bucket =
     \<lparr>Total = [''BlendedCost'' \<mapsto> \<lparr>Amount = Some ''n/a'', Unit = Some ''USD''\<rparr>,
               ''UnblendedCost'' \<mapsto> \<lparr>Amount = Some ''1.5'', Unit = None\<rparr>]\<rparr>"

definition all_names_sorted :: "string list" where
  "all_names_sorted =
     [''AmortizedCost'', ''BlendedCost'', ''NetAmortizedCost'', ''NetUnblendedCost'',
      ''NormalizedUsageAmount'', ''UnblendedCost'', ''UsageQuantity'']"

definition full_bucket :: ResultByTime where
  "full_bucket =
     \<lparr>Total = map_of (map (\<lambda>n. (n, \<lparr>Amount = Some ''1.5'', Unit = Some ''USD''\<rparr>))
                        all_names_sorted)\<rparr>"

text \<open>
  A world whose clock gives \<open>t1\<close> at the first reading and \<open>t2\<close> at every later one,
  and whose service gives the same answer to every request.
\<close>

definition steady_world :: "Time \<Rightarrow> Time \<Rightarrow> error + GetCostAndUsageOutput \<Rightarrow> unit world" where
  "steady_world t1 t2 r =
     \<lparr>clock = (\<lambda>n. if n = 0 then t1 else t2), readings = 0, service = (),
      respond = (\<lambda>c input. (r, c)), requests = []\<rparr>"

definition at_time :: "int \<Rightarrow> int \<Rightarrow> int \<Rightarrow> int \<Rightarrow> int \<Rightarrow> int \<Rightarrow> Time" where
  "at_time y m d hh mm ss =
     \<lparr>year = y, month = m, day = d, hour = hh, minute = mm, second = ss\<rparr>"

definition blended_cost_desc :: Desc where
  "blended_cost_desc =
     newAwsBillingMetric ''blended_cost''
       ''This cost metric reflects the average cost of usage across the consolidated billing family.''"

definition unblended_cost_desc :: Desc where
  "unblended_cost_desc =
     newAwsBillingMetric ''unblended_cost''
       ''Unblended costs separate discounts into their own line items. This enables you to view the amount of each discount received.''"

section \<open>The catalog\<close>

text \<open>
  Every descriptor of the catalog has the two variable labels \<open>type\<close> and \<open>unit\<close>,
  and the catalog gives different ids different descriptors (their names differ).
\<close>

lemma catalog_labels: "prometheusMetrics k = Some d \<Longrightarrow> variableLabels d = [''type'', ''unit'']"
  by (auto simp: prometheusMetrics_def newAwsBillingMetric_def NewDesc_def serverLabelNames_def split: if_splits)

lemma catalog_name:
  "prometheusMetrics k = Some d \<Longrightarrow>
     (k = 1 \<and> fqName d = ''aws_billing_server_amortized_cost'') \<or>
     (k = 2 \<and> fqName d = ''aws_billing_server_blended_cost'') \<or>
     (k = 3 \<and> fqName d = ''aws_billing_server_net_amortized_cost'') \<or>
     (k = 4 \<and> fqName d = ''aws_billing_server_net_unblended_cost'') \<or>
     (k = 5 \<and> fqName d = ''aws_billing_server_normalized_usage_amount'') \<or>
     (k = 6 \<and> fqName d = ''aws_billing_server_unblended_cost'') \<or>
     (k = 7 \<and> fqName d = ''aws_billing_server_usage_quantity'')"
  by (auto simp: prometheusMetrics_def newAwsBillingMetric_def NewDesc_def BuildFQName_def namespace_def split: if_splits)

lemma catalog_inj:
  assumes "prometheusMetrics k = Some d" "prometheusMetrics k' = Some d"
  shows "k = k'"
  using catalog_name[OF assms(1)] catalog_name[OF assms(2)] by auto

lemma catalog_sel_labels:
  "pm \<subseteq>\<^sub>m prometheusMetrics \<Longrightarrow> pm k = Some d \<Longrightarrow> variableLabels d = [''type'', ''unit'']"
proof -
  assume le: "pm \<subseteq>\<^sub>m prometheusMetrics" and k: "pm k = Some d"
  from k have "k \<in> dom pm" by (rule domI)
  with le have "pm k = prometheusMetrics k" by (simp add: map_le_def)
  with k have "prometheusMetrics k = Some d" by simp
  then show ?thesis by (rule catalog_labels)
qed

lemma catalog_sel_inj:
  "pm \<subseteq>\<^sub>m prometheusMetrics \<Longrightarrow> pm k = Some d \<Longrightarrow> pm k' = Some d \<Longrightarrow> k' = k"
proof -
  assume le: "pm \<subseteq>\<^sub>m prometheusMetrics" and k: "pm k = Some d" and k': "pm k' = Some d"
  from k have "k \<in> dom pm" by (rule domI)
  with le have "pm k = prometheusMetrics k" by (simp add: map_le_def)
  with k have 1: "prometheusMetrics k = Some d" by simp
  from k' have "k' \<in> dom pm" by (rule domI)
  with le have "pm k' = prometheusMetrics k'" by (simp add: map_le_def)
  with k' have 2: "prometheusMetrics k' = Some d" by simp
  from 2 1 show ?thesis by (rule catalog_inj)
qed

section \<open>The loops of scrape\<close>

text \<open>
  The inner loop sends the cost sample of its descriptor, whatever the order of its
  visit; the outer loop sends the samples of the enabled descriptors in the order of its
  own visit. Neither panics when the response has a first bucket, the items under the
  enabled names have the pointers that \<open>scrape\<close> follows and the descriptors have two
  variable labels.
\<close>

lemma scan_costs_absent:
  "name \<notin> set cs \<Longrightarrow> scan_costs pf name metric costs cs c = (c, Normal)"
  by (induction cs arbitrary: c) (auto split: option.splits)

lemma scan_costs_present:
  "distinct cs \<Longrightarrow> name \<in> set cs \<Longrightarrow> costs name = Some cost \<Longrightarrow>
   item_complete pf cost \<Longrightarrow> length (variableLabels metric) = 2 \<Longrightarrow>
   scan_costs pf name metric costs cs c = (c @ item_sample pf name metric costs, Normal)"
proof (induction cs arbitrary: c)
  case Nil
  then show ?case by simp
next
  case (Cons a cs)
  show ?case
  proof (cases "a = name")
    case True
    with Cons.prems have "name \<notin> set cs" by simp
    then show ?thesis using True Cons.prems
      by (auto simp: scan_costs_absent item_sample_def item_complete_def MustNewConstMetric_def
          split: option.splits)
  next
    case False
    with Cons show ?thesis by (simp split: option.splits)
  qed
qed

lemma scan_costs_range:
  assumes "range_order costs cs" "length (variableLabels metric) = 2"
    and "\<And>cost. costs name = Some cost \<Longrightarrow> item_complete pf cost"
  shows "scan_costs pf name metric costs cs c = (c @ item_sample pf name metric costs, Normal)"
proof (cases "costs name")
  case None
  then have "name \<notin> set cs" using assms(1) by (auto simp: range_order_def)
  then show ?thesis using None by (simp add: scan_costs_absent item_sample_def)
next
  case (Some cost)
  then have "name \<in> set cs" using assms(1) by (auto simp: range_order_def)
  then show ?thesis using Some assms(1,2) assms(3)[OF Some]
    by (simp add: scan_costs_present range_order_def)
qed

lemma scan_metrics_range:
  assumes "ResultsByTime response = bucket # later"
    and "\<And>k d. pm k = Some d \<Longrightarrow> length (variableLabels d) = 2"
    and "bucket_complete pf pm bucket"
    and "\<And>k. k \<in> set ks \<Longrightarrow> range_order (Total bucket) (inner k)"
  shows "scan_metrics pf pm response inner ks c =
           (c @ concat (map (key_samples pf pm bucket) ks), Normal)"
  using assms(4)
proof (induction ks arbitrary: c)
  case Nil
  then show ?case by simp
next
  case (Cons k ks)
  show ?case
  proof (cases "pm k")
    case None
    then show ?thesis using Cons by (simp add: key_samples_def)
  next
    case (Some d)
    have complete: "item_complete pf cost"
      if "Total bucket (index_str AWSMetrics k) = Some cost" for cost
      using assms(3) Some that unfolding bucket_complete_def by blast
    have "scan_costs pf (index_str AWSMetrics k) d (Total bucket) (inner k) c
            = (c @ item_sample pf (index_str AWSMetrics k) d (Total bucket), Normal)"
      by (rule scan_costs_range) (simp_all add: Cons.prems assms(2)[OF Some] complete)
    then show ?thesis using Some Cons assms(1) by (simp add: key_samples_def)
  qed
qed

lemma samples_for_key_other:
  "pm k' \<noteq> Some d \<Longrightarrow> samples_for d (key_samples pf pm b k') = []"
  by (auto simp: samples_for_def key_samples_def item_sample_def split: option.splits)

lemma samples_for_key_same:
  "pm k = Some d \<Longrightarrow> samples_for d (key_samples pf pm b k) = key_samples pf pm b k"
  by (auto simp: samples_for_def key_samples_def item_sample_def split: option.splits)

lemma samples_for_append: "samples_for d (xs @ ys) = samples_for d xs @ samples_for d ys"
  by (simp add: samples_for_def)

lemma samples_for_concat:
  assumes inj: "\<And>k'. pm k' = Some d \<Longrightarrow> k' = k" and d: "pm k = Some d"
  shows "distinct ks \<Longrightarrow>
     samples_for d (concat (map (key_samples pf pm b) ks)) =
       (if k \<in> set ks then key_samples pf pm b k else [])"
proof (induction ks)
  case Nil
  then show ?case by (simp add: samples_for_def)
next
  case (Cons a ks)
  show ?case
  proof (cases "a = k")
    case True
    then show ?thesis using Cons d by (simp add: samples_for_append samples_for_key_same)
  next
    case False
    then have "pm a \<noteq> Some d" using inj by blast
    then show ?thesis using Cons False by (simp add: samples_for_append samples_for_key_other)
  qed
qed

lemma Collect_success:
  fixes s :: "('w, 'f :: {zero, one}) state"
  assumes "fetch (exporter s) (world s) = (Returned (Inr response), w)"
    and "ResultsByTime response = bucket # later"
    and "prometheusMetrics_field (exporter s) \<subseteq>\<^sub>m prometheusMetrics"
    and "bucket_complete ParseFloat (prometheusMetrics_field (exporter s)) bucket"
    and "\<And>k. k \<in> set ks \<Longrightarrow> range_order (Total bucket) (inner k)"
  shows "Collect ParseFloat ks inner s =
     (s\<lparr>exporter := Inc (exporter s), world := w,
        ch := ch s @ concat (map (key_samples ParseFloat (prometheusMetrics_field (exporter s)) bucket) ks) @
              [ConstMetric awsBillingUp 1 [], CounterMetric (totalScrapes (exporter s) + 1)],
        steps := steps s @ [Counter_incremented, Fetch_called (totalScrapes (exporter s) + 1)]\<rparr>,
      Normal)"
proof -
  have two: "\<And>k d. prometheusMetrics_field (exporter s) k = Some d \<Longrightarrow> length (variableLabels d) = 2"
    using catalog_sel_labels[OF assms(3)] by simp
  have "scan_metrics ParseFloat (prometheusMetrics_field (exporter s)) response inner ks (ch s) =
      (ch s @ concat (map (key_samples ParseFloat (prometheusMetrics_field (exporter s)) bucket) ks), Normal)"
    by (rule scan_metrics_range[OF assms(2) two assms(4) assms(5)])
  then show ?thesis using assms(1)
    by (simp add: Collect_def scrape_def inc_totalScrapes_def call_fetch_def Inc_def
        MustNewConstMetric_def awsBillingUp_def NewDesc_def Let_def)
qed

section \<open>The scrape counter\<close>

text \<open>
  Claim C2: every call of \<open>Collect\<close> raises the scrape counter by exactly one, whether
  the fetch returns a response or an error; and the counter is raised before the fetch
  is tried. The two equations below hold for every fetch function, every state of the
  world, every response and every order of the loops, and also when the fetch function
  or \<open>scrape\<close> panics. The first is the count after the call. The second is the order
  of the steps: the call adds one increment and then one call of the fetch function,
  which is made while the counter already reads one more than before the call. The
  witness is a call in which the fetch function panics: the counter has been raised, and
  nothing is sent.
\<close>

theorem Collect_counts_every_call:
  "totalScrapes (exporter (fst (Collect ParseFloat ks inner s))) = totalScrapes (exporter s) + 1 \<and>
   steps (fst (Collect ParseFloat ks inner s)) =
     steps s @ [Counter_incremented, Fetch_called (totalScrapes (exporter s) + 1)]"
  by (simp add: Collect_def scrape_def inc_totalScrapes_def call_fetch_def Inc_def
      MustNewConstMetric_def awsBillingUp_def NewDesc_def Let_def
      split: prod.splits called.splits sum.splits outcome.splits)

theorem Collect_counts_every_call_witness:
  "fetch (exporter (fresh panics prometheusMetrics ())) (world (fresh panics prometheusMetrics ())) =
     (Panicked, ()) \<and>
   Collect parse_decimal [1, 2, 3, 4, 5, 6, 7] (\<lambda>k. []) (fresh panics prometheusMetrics ()) =
     ((fresh panics prometheusMetrics ())
        \<lparr>exporter := Inc (exporter (fresh panics prometheusMetrics ())),
         steps := [Counter_incremented, Fetch_called 1]\<rparr>, Panic) \<and>
   totalScrapes (exporter (fst (Collect parse_decimal [1, 2, 3, 4, 5, 6, 7] (\<lambda>k. [])
                                  (fresh panics prometheusMetrics ())))) = 0 + 1 \<and>
   steps (fst (Collect parse_decimal [1, 2, 3, 4, 5, 6, 7] (\<lambda>k. [])
                 (fresh panics prometheusMetrics ()))) =
     [] @ [Counter_incremented, Fetch_called (0 + 1)]"
proof -
  let ?s = "fresh panics prometheusMetrics ()"
  have c1: "fetch (exporter ?s) (world ?s) = (Panicked, ())"
    by (simp add: fresh_def panics_def)
  have c2: "Collect parse_decimal [1, 2, 3, 4, 5, 6, 7] (\<lambda>k. []) ?s =
     (?s\<lparr>exporter := Inc (exporter ?s), steps := [Counter_incremented, Fetch_called 1]\<rparr>,
      Panic)"
    by (simp add: Collect_def scrape_def inc_totalScrapes_def call_fetch_def Inc_def fresh_def
        panics_def)
  have n: "totalScrapes (exporter ?s) = 0" and t: "steps ?s = []"
    by (simp_all add: fresh_def)
  from Collect_counts_every_call [of parse_decimal "[1, 2, 3, 4, 5, 6, 7]" "\<lambda>k. []" ?s]
  have c3: "totalScrapes (exporter (fst (Collect parse_decimal [1, 2, 3, 4, 5, 6, 7] (\<lambda>k. [])
                                  ?s))) = 0 + 1"
    and c4: "steps (fst (Collect parse_decimal [1, 2, 3, 4, 5, 6, 7] (\<lambda>k. []) ?s)) =
     [] @ [Counter_incremented, Fetch_called (0 + 1)]"
    by (simp_all only: n t)
  show ?thesis
    by (intro conjI) (rule c1 c2 c3 c4)+
qed

section \<open>A failed fetch\<close>

text \<open>
  Claim C3: when the fetch returns an error, \<open>Collect\<close> sends no cost sample: it sends
  the gauge \<open>up\<close> with value 0 and the scrape counter, and nothing else. The error is
  logged and does not leave \<open>Collect\<close>, which ends normally.
\<close>

theorem Collect_failed_fetch:
  assumes "fetch (exporter s) (world s) = (Returned (Inl err), w)"
  shows "Collect ParseFloat ks inner s =
     (s\<lparr>exporter := Inc (exporter s), world := w,
        ch := ch s @ [ConstMetric awsBillingUp 0 [], CounterMetric (totalScrapes (exporter s) + 1)],
        logged := logged s @ [err],
        steps := steps s @ [Counter_incremented, Fetch_called (totalScrapes (exporter s) + 1)]\<rparr>,
      Normal)"
  using assms
  by (simp add: Collect_def scrape_def inc_totalScrapes_def call_fetch_def Inc_def
      MustNewConstMetric_def awsBillingUp_def NewDesc_def Let_def)

theorem Collect_failed_fetch_witness:
  "fetch (exporter (fresh (fails (Service_error ''throttled'')) prometheusMetrics ()))
         (world (fresh (fails (Service_error ''throttled'')) prometheusMetrics ())) =
     (Returned (Inl (Service_error ''throttled'')), ()) \<and>
   ch (fst (Collect parse_decimal [1, 2, 3, 4, 5, 6, 7] (\<lambda>k. [])
              (fresh (fails (Service_error ''throttled'')) prometheusMetrics ()))) =
     [ConstMetric awsBillingUp 0 [], CounterMetric 1] \<and>
   logged (fst (Collect parse_decimal [1, 2, 3, 4, 5, 6, 7] (\<lambda>k. [])
              (fresh (fails (Service_error ''throttled'')) prometheusMetrics ()))) =
     [Service_error ''throttled''] \<and>
   snd (Collect parse_decimal [1, 2, 3, 4, 5, 6, 7] (\<lambda>k. [])
              (fresh (fails (Service_error ''throttled'')) prometheusMetrics ())) = Normal"
proof -
  let ?s = "fresh (fails (Service_error ''throttled'')) prometheusMetrics ()"
  have f: "fetch (exporter ?s) (world ?s) = (Returned (Inl (Service_error ''throttled'')), ())"
    by (simp add: fresh_def fails_def)
  show ?thesis
    using f Collect_failed_fetch [OF f, of parse_decimal "[1, 2, 3, 4, 5, 6, 7]" "\<lambda>k. []"]
    by (simp add: fresh_def)
qed

section \<open>A successful fetch\<close>

lemma restrict_catalog_le: "prometheusMetrics |` A \<subseteq>\<^sub>m prometheusMetrics"
  by (auto simp: map_le_def restrict_map_def dom_def split: if_splits)

lemma dom_catalog: "dom prometheusMetrics = {1, 2, 3, 4, 5, 6, 7}"
  by (auto simp: prometheusMetrics_def split: if_splits)

lemma parse_decimal_12_34: "parse_decimal ''12.34'' = Some (1234 / 100)"
  by (simp add: parse_decimal_def digit_val_def)

lemma parse_decimal_1_5: "parse_decimal ''1.5'' = Some (3 / 2)"
  by (simp add: parse_decimal_def digit_val_def)

lemma parse_decimal_n_a: "parse_decimal ''n/a'' = None"
  by (simp add: parse_decimal_def digit_val_def)

lemma AWS_name_2: "index_str AWSMetrics 2 = ''BlendedCost''"
  by (simp add: index_str_def AWSMetrics_def)

lemma AWS_name_6: "index_str AWSMetrics 6 = ''UnblendedCost''"
  by (simp add: index_str_def AWSMetrics_def)

lemma catalog_2: "(prometheusMetrics |` {2, 6}) 2 = Some blended_cost_desc"
  by (simp add: prometheusMetrics_def blended_cost_desc_def)

lemma catalog_6: "(prometheusMetrics |` {2, 6}) 6 = Some unblended_cost_desc"
  by (simp add: prometheusMetrics_def unblended_cost_desc_def)

lemma blended_two_labels: "length (variableLabels blended_cost_desc) = 2"
  by (simp add: blended_cost_desc_def newAwsBillingMetric_def NewDesc_def serverLabelNames_def)

lemma unblended_two_labels: "length (variableLabels unblended_cost_desc) = 2"
  by (simp add: unblended_cost_desc_def newAwsBillingMetric_def NewDesc_def serverLabelNames_def)

text \<open>
  Claim C4 says that after every successful fetch each enabled descriptor whose AWS name
  is in the first bucket with a parsable amount gets exactly one sample, and that the
  gauge \<open>up\<close> with value 1 and the scrape counter are always sent. \<open>scrape\<close> follows
  the pointers to the amount and to the unit of an item without looking whether they are
  nil. Below, the descriptors of ids 2 and 6 are enabled and the bucket holds
  \<open>BlendedCost\<close> at 12.34 USD beside an item \<open>UnblendedCost\<close> that has no amount:
  \<open>Collect\<close> panics. When the loop visits id 6 first nothing at all is sent, and when
  it visits id 2 first the sample of id 2 is sent and neither \<open>up\<close> nor the counter.
\<close>

theorem nil_amount_beside_sample_counterexample:
  "fetch (exporter (fresh (answers \<lparr>ResultsByTime = [no_amount_bucket]\<rparr>) (prometheusMetrics |` {2, 6}) ()))
         (world (fresh (answers \<lparr>ResultsByTime = [no_amount_bucket]\<rparr>) (prometheusMetrics |` {2, 6}) ())) =
     (Returned (Inr \<lparr>ResultsByTime = [no_amount_bucket]\<rparr>), ()) \<and>
   (prometheusMetrics |` {2, 6}) 2 = Some blended_cost_desc \<and>
   Total no_amount_bucket (index_str AWSMetrics 2) =
     Some \<lparr>Amount = Some ''12.34'', Unit = Some ''USD''\<rparr> \<and>
   parse_decimal ''12.34'' = Some (1234 / 100) \<and>
   Collect parse_decimal [6, 2] (\<lambda>k. [''UnblendedCost'', ''BlendedCost''])
       (fresh (answers \<lparr>ResultsByTime = [no_amount_bucket]\<rparr>) (prometheusMetrics |` {2, 6}) ()) =
     ((fresh (answers \<lparr>ResultsByTime = [no_amount_bucket]\<rparr>) (prometheusMetrics |` {2, 6}) ())
        \<lparr>exporter := Inc (exporter (fresh (answers \<lparr>ResultsByTime = [no_amount_bucket]\<rparr>)
                                        (prometheusMetrics |` {2, 6}) ())),
         ch := [],
         steps := [Counter_incremented, Fetch_called 1]\<rparr>, Panic) \<and>
   Collect parse_decimal [2, 6] (\<lambda>k. [''UnblendedCost'', ''BlendedCost''])
       (fresh (answers \<lparr>ResultsByTime = [no_amount_bucket]\<rparr>) (prometheusMetrics |` {2, 6}) ()) =
     ((fresh (answers \<lparr>ResultsByTime = [no_amount_bucket]\<rparr>) (prometheusMetrics |` {2, 6}) ())
        \<lparr>exporter := Inc (exporter (fresh (answers \<lparr>ResultsByTime = [no_amount_bucket]\<rparr>)
                                        (prometheusMetrics |` {2, 6}) ())),
         ch := [ConstMetric blended_cost_desc (1234 / 100) [''BlendedCost'', ''USD'']],
         steps := [Counter_incremented, Fetch_called 1]\<rparr>, Panic)"
proof -
  let ?r = "\<lparr>ResultsByTime = [no_amount_bucket]\<rparr>"
  let ?s = "fresh (answers ?r) (prometheusMetrics |` {2, 6}) ()"
  let ?inner = "\<lambda>k :: int. [''UnblendedCost'', ''BlendedCost'']"
  have c1: "fetch (exporter ?s) (world ?s) = (Returned (Inr ?r), ())"
    by (simp add: fresh_def answers_def)
  have c3: "Total no_amount_bucket (index_str AWSMetrics 2) =
      Some \<lparr>Amount = Some ''12.34'', Unit = Some ''USD''\<rparr>"
    by (simp add: AWS_name_2 no_amount_bucket_def)
  have c5: "Collect parse_decimal [6, 2] ?inner ?s =
     (?s\<lparr>exporter := Inc (exporter ?s), ch := [],
         steps := [Counter_incremented, Fetch_called 1]\<rparr>, Panic)"
    by (simp add: Collect_def scrape_def inc_totalScrapes_def call_fetch_def Inc_def fresh_def
        answers_def catalog_2 catalog_6 AWS_name_2 AWS_name_6 no_amount_bucket_def)
  have c6: "Collect parse_decimal [2, 6] ?inner ?s =
     (?s\<lparr>exporter := Inc (exporter ?s),
         ch := [ConstMetric blended_cost_desc (1234 / 100) [''BlendedCost'', ''USD'']],
         steps := [Counter_incremented, Fetch_called 1]\<rparr>, Panic)"
    using blended_two_labels
    by (simp add: Collect_def scrape_def inc_totalScrapes_def call_fetch_def Inc_def fresh_def
        answers_def catalog_2 catalog_6 AWS_name_2 AWS_name_6 no_amount_bucket_def
        parse_decimal_12_34 MustNewConstMetric_def)
  show ?thesis
    by (intro conjI) (rule c1 catalog_2 c3 parse_decimal_12_34 c5 c6)+
qed

text \<open>
  Claim C4, amended: when the fetch succeeds and every item of the first bucket under
  the AWS name of an enabled descriptor has an amount and, if the amount parses, a unit,
  then every enabled descriptor of the catalog whose AWS name is in the first bucket
  with an amount that parses gets exactly one sample, with the label values \<open>type\<close> =
  that name and \<open>unit\<close> = the unit of the item and with the parsed amount as its value;
  after the cost samples come the gauge \<open>up\<close> with value 1 and the scrape counter, and
  \<open>Collect\<close> ends normally. This holds for every order in which the two loops visit
  their maps. The witness is the example of the claim: the bucket with \<open>BlendedCost\<close>
  at 12.34 USD and the descriptor of id 2.
\<close>

theorem Collect_sends_one_sample_per_metric:
  fixes s :: "('w, 'f :: {zero, one}) state"
  assumes "fetch (exporter s) (world s) = (Returned (Inr response), w)"
    and "ResultsByTime response = bucket # later"
    and "prometheusMetrics_field (exporter s) \<subseteq>\<^sub>m prometheusMetrics"
    and "bucket_complete ParseFloat (prometheusMetrics_field (exporter s)) bucket"
    and "range_order (prometheusMetrics_field (exporter s)) ks"
    and "\<forall>k\<in>set ks. range_order (Total bucket) (inner k)"
    and "prometheusMetrics_field (exporter s) key = Some metric"
    and "Total bucket (index_str AWSMetrics key) = Some cost"
    and "Amount cost = Some amount"
    and "ParseFloat amount = Some f"
    and "Unit cost = Some unit"
  shows "\<exists>samples.
     Collect ParseFloat ks inner s =
       (s\<lparr>exporter := Inc (exporter s), world := w,
          ch := ch s @ samples @
                [ConstMetric awsBillingUp 1 [], CounterMetric (totalScrapes (exporter s) + 1)],
          steps := steps s @
                [Counter_incremented, Fetch_called (totalScrapes (exporter s) + 1)]\<rparr>,
        Normal) \<and>
     samples_for metric samples = [ConstMetric metric f [index_str AWSMetrics key, unit]] \<and>
     variableLabels metric = [''type'', ''unit'']"
proof -
  let ?pm = "prometheusMetrics_field (exporter s)"
  let ?samples = "concat (map (key_samples ParseFloat ?pm bucket) ks)"
  have run: "Collect ParseFloat ks inner s =
       (s\<lparr>exporter := Inc (exporter s), world := w,
          ch := ch s @ ?samples @
                [ConstMetric awsBillingUp 1 [], CounterMetric (totalScrapes (exporter s) + 1)],
          steps := steps s @
                [Counter_incremented, Fetch_called (totalScrapes (exporter s) + 1)]\<rparr>,
        Normal)"
    by (rule Collect_success[OF assms(1) assms(2) assms(3) assms(4)]) (use assms(6) in blast)
  have visited: "key \<in> set ks" and once: "distinct ks"
    using assms(5) assms(7) by (auto simp: range_order_def)
  have "samples_for metric ?samples =
          (if key \<in> set ks then key_samples ParseFloat ?pm bucket key else [])"
    by (rule samples_for_concat[where pm = "?pm" and d = metric and k = key,
          OF catalog_sel_inj[OF assms(3) assms(7)] assms(7) once])
  then have "samples_for metric ?samples = key_samples ParseFloat ?pm bucket key"
    using visited by simp
  also have "\<dots> = [ConstMetric metric f [index_str AWSMetrics key, unit]]"
    using assms(7,8,9,10,11) by (simp add: key_samples_def item_sample_def)
  finally have one:
    "samples_for metric ?samples = [ConstMetric metric f [index_str AWSMetrics key, unit]]" .
  show ?thesis
  proof (intro exI conjI)
    show "Collect ParseFloat ks inner s =
       (s\<lparr>exporter := Inc (exporter s), world := w,
          ch := ch s @ ?samples @
                [ConstMetric awsBillingUp 1 [], CounterMetric (totalScrapes (exporter s) + 1)],
          steps := steps s @
                [Counter_incremented, Fetch_called (totalScrapes (exporter s) + 1)]\<rparr>,
        Normal)" by (rule run)
    show "samples_for metric ?samples = [ConstMetric metric f [index_str AWSMetrics key, unit]]"
      by (rule one)
    show "variableLabels metric = [''type'', ''unit'']"
      by (rule catalog_sel_labels[OF assms(3) assms(7)])
  qed
qed

theorem Collect_sends_one_sample_per_metric_witness:
  "fetch (exporter (fresh (answers \<lparr>ResultsByTime = [blended_bucket]\<rparr>) (prometheusMetrics |` {2}) ()))
         (world (fresh (answers \<lparr>ResultsByTime = [blended_bucket]\<rparr>) (prometheusMetrics |` {2}) ())) =
     (Returned (Inr \<lparr>ResultsByTime = [blended_bucket]\<rparr>), ()) \<and>
   bucket_complete parse_decimal (prometheusMetrics |` {2}) blended_bucket \<and>
   range_order (prometheusMetrics |` {2}) [2] \<and>
   range_order (Total blended_bucket) [''BlendedCost''] \<and>
   (prometheusMetrics |` {2}) 2 = Some blended_cost_desc \<and>
   fqName blended_cost_desc = ''aws_billing_server_blended_cost'' \<and>
   Total blended_bucket (index_str AWSMetrics 2) =
     Some \<lparr>Amount = Some ''12.34'', Unit = Some ''USD''\<rparr> \<and>
   parse_decimal ''12.34'' = Some (1234 / 100) \<and>
   (\<exists>samples.
      Collect parse_decimal [2] (\<lambda>k. [''BlendedCost''])
          (fresh (answers \<lparr>ResultsByTime = [blended_bucket]\<rparr>) (prometheusMetrics |` {2}) ()) =
        ((fresh (answers \<lparr>ResultsByTime = [blended_bucket]\<rparr>) (prometheusMetrics |` {2}) ())
           \<lparr>exporter :=
              Inc (exporter (fresh (answers \<lparr>ResultsByTime = [blended_bucket]\<rparr>)
                               (prometheusMetrics |` {2}) ())),
            world := (),
            ch := [] @ samples @ [ConstMetric awsBillingUp 1 [], CounterMetric (0 + 1)],
            steps := [] @ [Counter_incremented, Fetch_called (0 + 1)]\<rparr>,
         Normal) \<and>
      samples_for blended_cost_desc samples =
        [ConstMetric blended_cost_desc (1234 / 100) [''BlendedCost'', ''USD'']]) \<and>
   ch (fst (Collect parse_decimal [2] (\<lambda>k. [''BlendedCost''])
              (fresh (answers \<lparr>ResultsByTime = [blended_bucket]\<rparr>) (prometheusMetrics |` {2}) ()))) =
     [ConstMetric blended_cost_desc (1234 / 100) [''BlendedCost'', ''USD''],
      ConstMetric awsBillingUp 1 [], CounterMetric 1]"
proof -
  let ?r = "\<lparr>ResultsByTime = [blended_bucket]\<rparr>"
  let ?s = "fresh (answers ?r) (prometheusMetrics |` {2}) ()"
  let ?cost = "\<lparr>Amount = Some ''12.34'', Unit = Some ''USD''\<rparr>"
  have h1: "fetch (exporter ?s) (world ?s) = (Returned (Inr ?r), ())"
    by (simp add: fresh_def answers_def)
  have h2: "ResultsByTime ?r = blended_bucket # []" by simp
  have h3: "prometheusMetrics_field (exporter ?s) \<subseteq>\<^sub>m prometheusMetrics"
    by (simp add: fresh_def restrict_catalog_le)
  have b: "bucket_complete parse_decimal (prometheusMetrics |` {2}) blended_bucket"
    by (auto simp: bucket_complete_def dom_catalog AWS_name_2 blended_bucket_def
        item_complete_def parse_decimal_12_34)
  have h4: "bucket_complete parse_decimal (prometheusMetrics_field (exporter ?s)) blended_bucket"
    using b by (simp add: fresh_def)
  have o1: "range_order (prometheusMetrics |` {2}) [2]"
    by (simp add: range_order_def dom_catalog)
  have h5: "range_order (prometheusMetrics_field (exporter ?s)) [2]"
    using o1 by (simp add: fresh_def)
  have o2: "range_order (Total blended_bucket) [''BlendedCost'']"
    by (simp add: range_order_def blended_bucket_def)
  have h6: "\<forall>k\<in>set [2 :: int]. range_order (Total blended_bucket) ((\<lambda>k. [''BlendedCost'']) k)"
    using o2 by simp
  have d: "(prometheusMetrics |` {2}) 2 = Some blended_cost_desc"
    by (simp add: prometheusMetrics_def blended_cost_desc_def)
  have h7: "prometheusMetrics_field (exporter ?s) 2 = Some blended_cost_desc"
    using d by (simp add: fresh_def)
  have n: "fqName blended_cost_desc = ''aws_billing_server_blended_cost''"
    by (simp add: blended_cost_desc_def newAwsBillingMetric_def NewDesc_def BuildFQName_def
        namespace_def)
  have h8: "Total blended_bucket (index_str AWSMetrics 2) = Some ?cost"
    by (simp add: AWS_name_2 blended_bucket_def)
  have h9: "Amount ?cost = Some ''12.34''" by simp
  have h11: "Unit ?cost = Some ''USD''" by simp
  have run: "ch (fst (Collect parse_decimal [2] (\<lambda>k. [''BlendedCost'']) ?s)) =
     [ConstMetric blended_cost_desc (1234 / 100) [''BlendedCost'', ''USD''],
      ConstMetric awsBillingUp 1 [], CounterMetric 1]"
    using blended_two_labels
    by (simp add: Collect_def scrape_def inc_totalScrapes_def call_fetch_def Inc_def fresh_def
        answers_def d AWS_name_2 blended_bucket_def parse_decimal_12_34 MustNewConstMetric_def
        awsBillingUp_def NewDesc_def)
  from Collect_sends_one_sample_per_metric
         [where ParseFloat = parse_decimal and inner = "\<lambda>k. [''BlendedCost'']" and s = "?s"
            and cost = ?cost,
          OF h1 h2 h3 h4 h5 h6 h7 h8 h9 parse_decimal_12_34 h11]
  obtain samples where
    c1: "Collect parse_decimal [2] (\<lambda>k. [''BlendedCost'']) ?s =
        (?s\<lparr>exporter := Inc (exporter ?s), world := (),
            ch := ch ?s @ samples @
              [ConstMetric awsBillingUp 1 [], CounterMetric (totalScrapes (exporter ?s) + 1)],
            steps := steps ?s @
              [Counter_incremented, Fetch_called (totalScrapes (exporter ?s) + 1)]\<rparr>,
         Normal)"
    and c2: "samples_for blended_cost_desc samples =
        [ConstMetric blended_cost_desc (1234 / 100) [index_str AWSMetrics 2, ''USD'']]"
    by blast
  have c1': "Collect parse_decimal [2] (\<lambda>k. [''BlendedCost'']) ?s =
        (?s\<lparr>exporter := Inc (exporter ?s), world := (),
            ch := [] @ samples @ [ConstMetric awsBillingUp 1 [], CounterMetric (0 + 1)],
            steps := [] @ [Counter_incremented, Fetch_called (0 + 1)]\<rparr>,
         Normal)"
    using c1 by (simp add: fresh_def)
  have c2': "samples_for blended_cost_desc samples =
        [ConstMetric blended_cost_desc (1234 / 100) [''BlendedCost'', ''USD'']]"
    using c2 by (simp add: AWS_name_2)
  from c1' c2' have ex: "\<exists>samples.
      Collect parse_decimal [2] (\<lambda>k. [''BlendedCost'']) ?s =
        (?s\<lparr>exporter := Inc (exporter ?s), world := (),
            ch := [] @ samples @ [ConstMetric awsBillingUp 1 [], CounterMetric (0 + 1)],
            steps := [] @ [Counter_incremented, Fetch_called (0 + 1)]\<rparr>,
         Normal) \<and>
      samples_for blended_cost_desc samples =
        [ConstMetric blended_cost_desc (1234 / 100) [''BlendedCost'', ''USD'']]"
    by blast
  show ?thesis
    by (intro conjI) (rule h1 b o1 o2 d n h8 parse_decimal_12_34 ex run)+
qed

text \<open>
  Claim C6 says that after a successful fetch an item whose amount does not parse is
  skipped, while the samples of the other parsable items, the gauge \<open>up\<close> with value 1
  and the scrape counter are still sent and the scrape does not fail. Below, the
  descriptors of ids 2 and 6 are enabled, the amount of \<open>BlendedCost\<close> does not parse
  and the other item, \<open>UnblendedCost\<close>, has a parsable amount and no unit: \<open>Collect\<close>
  panics at \<open>*cost.Unit\<close> and sends nothing, in either order of the loop.
\<close>

theorem nil_unit_beside_skipped_item_counterexample:
  "fetch (exporter (fresh (answers \<lparr>ResultsByTime = [no_unit_bucket]\<rparr>) (prometheusMetrics |` {2, 6}) ()))
         (world (fresh (answers \<lparr>ResultsByTime = [no_unit_bucket]\<rparr>) (prometheusMetrics |` {2, 6}) ())) =
     (Returned (Inr \<lparr>ResultsByTime = [no_unit_bucket]\<rparr>), ()) \<and>
   (prometheusMetrics |` {2, 6}) 2 = Some blended_cost_desc \<and>
   (prometheusMetrics |` {2, 6}) 6 = Some unblended_cost_desc \<and>
   Total no_unit_bucket (index_str AWSMetrics 2) =
     Some \<lparr>Amount = Some ''n/a'', Unit = Some ''USD''\<rparr> \<and>
   parse_decimal ''n/a'' = None \<and>
   Total no_unit_bucket (index_str AWSMetrics 6) = Some \<lparr>Amount = Some ''1.5'', Unit = None\<rparr> \<and>
   parse_decimal ''1.5'' = Some (3 / 2) \<and>
   Collect parse_decimal [2, 6] (\<lambda>k. [''UnblendedCost'', ''BlendedCost''])
       (fresh (answers \<lparr>ResultsByTime = [no_unit_bucket]\<rparr>) (prometheusMetrics |` {2, 6}) ()) =
     ((fresh (answers \<lparr>ResultsByTime = [no_unit_bucket]\<rparr>) (prometheusMetrics |` {2, 6}) ())
        \<lparr>exporter := Inc (exporter (fresh (answers \<lparr>ResultsByTime = [no_unit_bucket]\<rparr>)
                                        (prometheusMetrics |` {2, 6}) ())),
         ch := [],
         steps := [Counter_incremented, Fetch_called 1]\<rparr>, Panic) \<and>
   Collect parse_decimal [6, 2] (\<lambda>k. [''UnblendedCost'', ''BlendedCost''])
       (fresh (answers \<lparr>ResultsByTime = [no_unit_bucket]\<rparr>) (prometheusMetrics |` {2, 6}) ()) =
     ((fresh (answers \<lparr>ResultsByTime = [no_unit_bucket]\<rparr>) (prometheusMetrics |` {2, 6}) ())
        \<lparr>exporter := Inc (exporter (fresh (answers \<lparr>ResultsByTime = [no_unit_bucket]\<rparr>)
                                        (prometheusMetrics |` {2, 6}) ())),
         ch := [],
         steps := [Counter_incremented, Fetch_called 1]\<rparr>, Panic)"
proof -
  let ?r = "\<lparr>ResultsByTime = [no_unit_bucket]\<rparr>"
  let ?s = "fresh (answers ?r) (prometheusMetrics |` {2, 6}) ()"
  let ?inner = "\<lambda>k :: int. [''UnblendedCost'', ''BlendedCost'']"
  have c1: "fetch (exporter ?s) (world ?s) = (Returned (Inr ?r), ())"
    by (simp add: fresh_def answers_def)
  have c2: "Total no_unit_bucket (index_str AWSMetrics 2) =
      Some \<lparr>Amount = Some ''n/a'', Unit = Some ''USD''\<rparr>"
    by (simp add: AWS_name_2 no_unit_bucket_def)
  have c3: "Total no_unit_bucket (index_str AWSMetrics 6) =
      Some \<lparr>Amount = Some ''1.5'', Unit = None\<rparr>"
    by (simp add: AWS_name_6 no_unit_bucket_def)
  have c4: "Collect parse_decimal [2, 6] ?inner ?s =
     (?s\<lparr>exporter := Inc (exporter ?s), ch := [],
         steps := [Counter_incremented, Fetch_called 1]\<rparr>, Panic)"
    by (simp add: Collect_def scrape_def inc_totalScrapes_def call_fetch_def Inc_def fresh_def
        answers_def catalog_2 catalog_6 AWS_name_2 AWS_name_6 no_unit_bucket_def
        parse_decimal_n_a parse_decimal_1_5)
  have c5: "Collect parse_decimal [6, 2] ?inner ?s =
     (?s\<lparr>exporter := Inc (exporter ?s), ch := [],
         steps := [Counter_incremented, Fetch_called 1]\<rparr>, Panic)"
    by (simp add: Collect_def scrape_def inc_totalScrapes_def call_fetch_def Inc_def fresh_def
        answers_def catalog_2 catalog_6 AWS_name_2 AWS_name_6 no_unit_bucket_def
        parse_decimal_n_a parse_decimal_1_5)
  show ?thesis
    by (intro conjI)
      (rule c1 catalog_2 catalog_6 c2 parse_decimal_n_a c3 parse_decimal_1_5 c4 c5)+
qed

text \<open>
  Claim C6, amended: when the fetch succeeds and every item of the first bucket under
  the AWS name of an enabled descriptor has an amount and, if the amount parses, a unit,
  then an item under an enabled descriptor's AWS name whose amount does not parse gets
  no sample and nothing is logged; every other enabled descriptor whose item parses
  still gets its one sample, the gauge \<open>up\<close> with value 1 and the scrape counter
  follow, and \<open>Collect\<close> ends normally.
\<close>

theorem Collect_skips_unparsable_amount:
  fixes s :: "('w, 'f :: {zero, one}) state"
  assumes "fetch (exporter s) (world s) = (Returned (Inr response), w)"
    and "ResultsByTime response = bucket # later"
    and "prometheusMetrics_field (exporter s) \<subseteq>\<^sub>m prometheusMetrics"
    and "bucket_complete ParseFloat (prometheusMetrics_field (exporter s)) bucket"
    and "range_order (prometheusMetrics_field (exporter s)) ks"
    and "\<forall>k\<in>set ks. range_order (Total bucket) (inner k)"
    and "prometheusMetrics_field (exporter s) key = Some metric"
    and "Total bucket (index_str AWSMetrics key) = Some cost"
    and "Amount cost = Some amount"
    and "ParseFloat amount = None"
  shows "\<exists>samples.
     Collect ParseFloat ks inner s =
       (s\<lparr>exporter := Inc (exporter s), world := w,
          ch := ch s @ samples @
                [ConstMetric awsBillingUp 1 [], CounterMetric (totalScrapes (exporter s) + 1)],
          steps := steps s @
                [Counter_incremented, Fetch_called (totalScrapes (exporter s) + 1)]\<rparr>,
        Normal) \<and>
     samples_for metric samples = [] \<and>
     (\<forall>key' metric' cost' amount' f' unit'.
        prometheusMetrics_field (exporter s) key' = Some metric' \<and>
        Total bucket (index_str AWSMetrics key') = Some cost' \<and>
        Amount cost' = Some amount' \<and> ParseFloat amount' = Some f' \<and>
        Unit cost' = Some unit' \<longrightarrow>
        samples_for metric' samples =
          [ConstMetric metric' f' [index_str AWSMetrics key', unit']])"
proof -
  let ?pm = "prometheusMetrics_field (exporter s)"
  let ?samples = "concat (map (key_samples ParseFloat ?pm bucket) ks)"
  have run: "Collect ParseFloat ks inner s =
       (s\<lparr>exporter := Inc (exporter s), world := w,
          ch := ch s @ ?samples @
                [ConstMetric awsBillingUp 1 [], CounterMetric (totalScrapes (exporter s) + 1)],
          steps := steps s @
                [Counter_incremented, Fetch_called (totalScrapes (exporter s) + 1)]\<rparr>,
        Normal)"
    by (rule Collect_success[OF assms(1) assms(2) assms(3) assms(4)]) (use assms(6) in blast)
  have once: "distinct ks" and all: "set ks = dom ?pm"
    using assms(5) by (auto simp: range_order_def)
  have each: "samples_for d ?samples = key_samples ParseFloat ?pm bucket k"
    if "?pm k = Some d" for k d
  proof -
    have "k \<in> set ks" using that all by auto
    moreover have "samples_for d ?samples =
        (if k \<in> set ks then key_samples ParseFloat ?pm bucket k else [])"
      by (rule samples_for_concat[where pm = "?pm" and d = d and k = k,
            OF catalog_sel_inj[OF assms(3) that] that once])
    ultimately show ?thesis by simp
  qed
  have none: "samples_for metric ?samples = []"
    using each[OF assms(7)] assms(7,8,9,10) by (simp add: key_samples_def item_sample_def)
  have others: "samples_for metric' ?samples =
      [ConstMetric metric' f' [index_str AWSMetrics key', unit']]"
    if "?pm key' = Some metric'" "Total bucket (index_str AWSMetrics key') = Some cost'"
       "Amount cost' = Some amount'" "ParseFloat amount' = Some f'" "Unit cost' = Some unit'"
    for key' metric' cost' amount' f' unit'
    using each[OF that(1)] that by (simp add: key_samples_def item_sample_def)
  show ?thesis
  proof (intro exI conjI allI impI)
    show "Collect ParseFloat ks inner s =
       (s\<lparr>exporter := Inc (exporter s), world := w,
          ch := ch s @ ?samples @
                [ConstMetric awsBillingUp 1 [], CounterMetric (totalScrapes (exporter s) + 1)],
          steps := steps s @
                [Counter_incremented, Fetch_called (totalScrapes (exporter s) + 1)]\<rparr>,
        Normal)" by (rule run)
    show "samples_for metric ?samples = []" by (rule none)
  next
    fix key' metric' cost' amount' unit' and f' :: 'f
    assume "?pm key' = Some metric' \<and>
        Total bucket (index_str AWSMetrics key') = Some cost' \<and>
        Amount cost' = Some amount' \<and> ParseFloat amount' = Some f' \<and>
        Unit cost' = Some unit'"
    then show "samples_for metric' ?samples =
        [ConstMetric metric' f' [index_str AWSMetrics key', unit']]"
      using others by blast
  qed
qed

theorem Collect_skips_unparsable_amount_witness:
  "fetch (exporter (fresh (answers \<lparr>ResultsByTime = [mixed_bucket]\<rparr>) (prometheusMetrics |` {2, 6}) ()))
         (world (fresh (answers \<lparr>ResultsByTime = [mixed_bucket]\<rparr>) (prometheusMetrics |` {2, 6}) ())) =
     (Returned (Inr \<lparr>ResultsByTime = [mixed_bucket]\<rparr>), ()) \<and>
   bucket_complete parse_decimal (prometheusMetrics |` {2, 6}) mixed_bucket \<and>
   range_order (prometheusMetrics |` {2, 6}) [6, 2] \<and>
   range_order (Total mixed_bucket) [''UnblendedCost'', ''BlendedCost''] \<and>
   (prometheusMetrics |` {2, 6}) 2 = Some blended_cost_desc \<and>
   (prometheusMetrics |` {2, 6}) 6 = Some unblended_cost_desc \<and>
   Total mixed_bucket (index_str AWSMetrics 2) =
     Some \<lparr>Amount = Some ''n/a'', Unit = Some ''USD''\<rparr> \<and>
   parse_decimal ''n/a'' = None \<and>
   (\<exists>samples.
      ch (fst (Collect parse_decimal [6, 2] (\<lambda>k. [''UnblendedCost'', ''BlendedCost''])
                 (fresh (answers \<lparr>ResultsByTime = [mixed_bucket]\<rparr>)
                    (prometheusMetrics |` {2, 6}) ()))) =
        samples @ [ConstMetric awsBillingUp 1 [], CounterMetric 1] \<and>
      samples_for blended_cost_desc samples = [] \<and>
      samples_for unblended_cost_desc samples =
        [ConstMetric unblended_cost_desc (3 / 2) [''UnblendedCost'', ''USD'']]) \<and>
   ch (fst (Collect parse_decimal [6, 2] (\<lambda>k. [''UnblendedCost'', ''BlendedCost''])
              (fresh (answers \<lparr>ResultsByTime = [mixed_bucket]\<rparr>) (prometheusMetrics |` {2, 6}) ()))) =
     [ConstMetric unblended_cost_desc (3 / 2) [''UnblendedCost'', ''USD''],
      ConstMetric awsBillingUp 1 [], CounterMetric 1] \<and>
   logged (fst (Collect parse_decimal [6, 2] (\<lambda>k. [''UnblendedCost'', ''BlendedCost''])
              (fresh (answers \<lparr>ResultsByTime = [mixed_bucket]\<rparr>) (prometheusMetrics |` {2, 6}) ()))) = [] \<and>
   snd (Collect parse_decimal [6, 2] (\<lambda>k. [''UnblendedCost'', ''BlendedCost''])
              (fresh (answers \<lparr>ResultsByTime = [mixed_bucket]\<rparr>) (prometheusMetrics |` {2, 6}) ())) = Normal"
proof -
  let ?r = "\<lparr>ResultsByTime = [mixed_bucket]\<rparr>"
  let ?s = "fresh (answers ?r) (prometheusMetrics |` {2, 6}) ()"
  let ?inner = "\<lambda>k :: int. [''UnblendedCost'', ''BlendedCost'']"
  let ?c2 = "\<lparr>Amount = Some ''n/a'', Unit = Some ''USD''\<rparr>"
  let ?c6 = "\<lparr>Amount = Some ''1.5'', Unit = Some ''USD''\<rparr>"
  have h1: "fetch (exporter ?s) (world ?s) = (Returned (Inr ?r), ())"
    by (simp add: fresh_def answers_def)
  have h2: "ResultsByTime ?r = mixed_bucket # []" by simp
  have h3: "prometheusMetrics_field (exporter ?s) \<subseteq>\<^sub>m prometheusMetrics"
    by (simp add: fresh_def restrict_catalog_le)
  have b: "bucket_complete parse_decimal (prometheusMetrics |` {2, 6}) mixed_bucket"
    by (auto simp: bucket_complete_def dom_catalog AWS_name_2 AWS_name_6 mixed_bucket_def
        item_complete_def parse_decimal_n_a parse_decimal_1_5)
  have h4: "bucket_complete parse_decimal (prometheusMetrics_field (exporter ?s)) mixed_bucket"
    using b by (simp add: fresh_def)
  have o1: "range_order (prometheusMetrics |` {2, 6}) [6, 2]"
    by (auto simp: range_order_def dom_catalog)
  have h5: "range_order (prometheusMetrics_field (exporter ?s)) [6, 2]"
    using o1 by (simp add: fresh_def)
  have o2: "range_order (Total mixed_bucket) [''UnblendedCost'', ''BlendedCost'']"
    by (auto simp: range_order_def mixed_bucket_def)
  have h6: "\<forall>k\<in>set [6, 2 :: int]. range_order (Total mixed_bucket) (?inner k)"
    using o2 by simp
  have h7: "prometheusMetrics_field (exporter ?s) 2 = Some blended_cost_desc"
    using catalog_2 by (simp add: fresh_def)
  have g7: "prometheusMetrics_field (exporter ?s) 6 = Some unblended_cost_desc"
    using catalog_6 by (simp add: fresh_def)
  have h8: "Total mixed_bucket (index_str AWSMetrics 2) = Some ?c2"
    by (simp add: AWS_name_2 mixed_bucket_def)
  have g8: "Total mixed_bucket (index_str AWSMetrics 6) = Some ?c6"
    by (simp add: AWS_name_6 mixed_bucket_def)
  have h9: "Amount ?c2 = Some ''n/a''" by simp
  from Collect_skips_unparsable_amount
         [where ParseFloat = parse_decimal and inner = ?inner and s = "?s" and cost = ?c2,
          OF h1 h2 h3 h4 h5 h6 h7 h8 h9 parse_decimal_n_a]
  obtain samples where
    c1: "Collect parse_decimal [6, 2] ?inner ?s =
        (?s\<lparr>exporter := Inc (exporter ?s), world := (),
            ch := ch ?s @ samples @
              [ConstMetric awsBillingUp 1 [], CounterMetric (totalScrapes (exporter ?s) + 1)],
            steps := steps ?s @
              [Counter_incremented, Fetch_called (totalScrapes (exporter ?s) + 1)]\<rparr>,
         Normal)"
    and c2: "samples_for blended_cost_desc samples = []"
    and c3: "\<forall>key' metric' cost' amount' f' unit'.
        prometheusMetrics_field (exporter ?s) key' = Some metric' \<and>
        Total mixed_bucket (index_str AWSMetrics key') = Some cost' \<and>
        Amount cost' = Some amount' \<and> parse_decimal amount' = Some f' \<and>
        Unit cost' = Some unit' \<longrightarrow>
        samples_for metric' samples =
          [ConstMetric metric' f' [index_str AWSMetrics key', unit']]"
    by blast
  have "prometheusMetrics_field (exporter ?s) 6 = Some unblended_cost_desc \<and>
        Total mixed_bucket (index_str AWSMetrics 6) = Some ?c6 \<and>
        Amount ?c6 = Some ''1.5'' \<and> parse_decimal ''1.5'' = Some (3 / 2) \<and>
        Unit ?c6 = Some ''USD''"
    using g7 g8 parse_decimal_1_5 by simp
  with c3 have "samples_for unblended_cost_desc samples =
        [ConstMetric unblended_cost_desc (3 / 2) [index_str AWSMetrics 6, ''USD'']]"
    by blast
  then have c4: "samples_for unblended_cost_desc samples =
        [ConstMetric unblended_cost_desc (3 / 2) [''UnblendedCost'', ''USD'']]"
    by (simp add: AWS_name_6)
  have c5: "ch (fst (Collect parse_decimal [6, 2] ?inner ?s)) =
      samples @ [ConstMetric awsBillingUp 1 [], CounterMetric 1]"
    by (simp add: c1) (simp add: fresh_def)
  have c6: "logged (fst (Collect parse_decimal [6, 2] ?inner ?s)) = []"
    by (simp add: c1) (simp add: fresh_def)
  have c7: "snd (Collect parse_decimal [6, 2] ?inner ?s) = Normal"
    by (simp add: c1)
  from c5 c2 c4 have ex: "\<exists>samples.
      ch (fst (Collect parse_decimal [6, 2] ?inner ?s)) =
        samples @ [ConstMetric awsBillingUp 1 [], CounterMetric 1] \<and>
      samples_for blended_cost_desc samples = [] \<and>
      samples_for unblended_cost_desc samples =
        [ConstMetric unblended_cost_desc (3 / 2) [''UnblendedCost'', ''USD'']]"
    by blast
  have run: "ch (fst (Collect parse_decimal [6, 2] ?inner ?s)) =
     [ConstMetric unblended_cost_desc (3 / 2) [''UnblendedCost'', ''USD''],
      ConstMetric awsBillingUp 1 [], CounterMetric 1]"
    using unblended_two_labels
    by (simp add: Collect_def scrape_def inc_totalScrapes_def call_fetch_def Inc_def fresh_def
        answers_def catalog_2 catalog_6 AWS_name_2 AWS_name_6 mixed_bucket_def
        parse_decimal_1_5 parse_decimal_n_a MustNewConstMetric_def awsBillingUp_def NewDesc_def)
  show ?thesis
    by (intro conjI) (rule h1 b o1 o2 catalog_2 catalog_6 h8 parse_decimal_n_a ex run c6 c7)+
qed

section \<open>A response without buckets\<close>

lemma scan_metrics_no_bucket:
  "ResultsByTime response = [] \<Longrightarrow>
   scan_metrics pf pm response inner ks c =
     (c, if \<exists>k \<in> set ks. pm k \<noteq> None then Panic else Normal)"
  by (induction ks arbitrary: c) (auto split: option.splits)

text \<open>
  Claim C10 says that a successful fetch makes \<open>scrape\<close> read \<open>ResultsByTime[0]\<close>
  unconditionally, so that a response without buckets always panics. The index
  expression stands inside the loop over the enabled descriptors: with no descriptor
  enabled (the filter \<open>8\<close> enables none) it is never evaluated, and \<open>Collect\<close> ends
  normally with \<open>up\<close> = 1.
\<close>

theorem empty_response_without_metrics_counterexample:
  "filterServerMetrics [1, 2, 3, 4, 5, 6, 7] ''8'' = Inr Map.empty \<and>
   fetch (exporter (fresh (answers \<lparr>ResultsByTime = []\<rparr>) Map.empty ()))
         (world (fresh (answers \<lparr>ResultsByTime = []\<rparr>) Map.empty ())) =
     (Returned (Inr \<lparr>ResultsByTime = []\<rparr>), ()) \<and>
   snd (Collect parse_decimal [] (\<lambda>k. []) (fresh (answers \<lparr>ResultsByTime = []\<rparr>) Map.empty ())) =
     Normal \<and>
   ch (fst (Collect parse_decimal [] (\<lambda>k. [])
              (fresh (answers \<lparr>ResultsByTime = []\<rparr>) Map.empty ()))) =
     [ConstMetric awsBillingUp 1 [], CounterMetric 1]"
  by (simp add: filterServerMetrics_def digit_val_def Atoi_def prometheusMetrics_def
      Collect_def scrape_def inc_totalScrapes_def call_fetch_def Inc_def fresh_def answers_def
      MustNewConstMetric_def awsBillingUp_def NewDesc_def)

text \<open>
  Claim C10, amended: when the fetch succeeds with a response that has no bucket and at
  least one descriptor is enabled, \<open>scrape\<close> panics at the first-bucket access before
  anything is sent: \<open>Collect\<close> ends in a panic, the channel is as it was (no cost
  sample, no gauge \<open>up\<close>, no counter sample) and the counter has been raised. When no
  descriptor is enabled, the bucket list is not read and \<open>Collect\<close> ends normally
  after sending \<open>up\<close> = 1 and the counter.
\<close>

theorem Collect_empty_response:
  fixes s :: "('w, 'f :: {zero, one}) state"
  assumes "fetch (exporter s) (world s) = (Returned (Inr response), w)"
    and "ResultsByTime response = []"
    and "range_order (prometheusMetrics_field (exporter s)) ks"
  shows "Collect ParseFloat ks inner s =
     (if prometheusMetrics_field (exporter s) = Map.empty
      then (s\<lparr>exporter := Inc (exporter s), world := w,
              ch := ch s @ [ConstMetric awsBillingUp 1 [],
                            CounterMetric (totalScrapes (exporter s) + 1)],
              steps := steps s @
                [Counter_incremented, Fetch_called (totalScrapes (exporter s) + 1)]\<rparr>,
            Normal)
      else (s\<lparr>exporter := Inc (exporter s), world := w,
              steps := steps s @
                [Counter_incremented, Fetch_called (totalScrapes (exporter s) + 1)]\<rparr>,
            Panic))"
proof -
  let ?pm = "prometheusMetrics_field (exporter s)"
  have keys: "set ks = dom ?pm"
    using assms(3) by (simp add: range_order_def)
  have "(\<exists>k \<in> dom ?pm. ?pm k \<noteq> None) \<longleftrightarrow> (\<exists>k. k \<in> dom ?pm)"
    by (auto simp: dom_def)
  also have "\<dots> \<longleftrightarrow> dom ?pm \<noteq> {}"
    by blast
  also have "\<dots> \<longleftrightarrow> ?pm \<noteq> Map.empty"
    by (simp add: dom_eq_empty_conv)
  finally have "(\<exists>k \<in> set ks. ?pm k \<noteq> None) \<longleftrightarrow> ?pm \<noteq> Map.empty"
    by (simp add: keys)
  then have "scan_metrics ParseFloat ?pm response inner ks (ch s) =
      (ch s, if ?pm = Map.empty then Normal else Panic)"
    by (simp add: scan_metrics_no_bucket[OF assms(2)])
  then show ?thesis using assms(1)
    by (simp add: Collect_def scrape_def inc_totalScrapes_def call_fetch_def Inc_def
        MustNewConstMetric_def awsBillingUp_def NewDesc_def Let_def)
qed

theorem Collect_empty_response_witness:
  "fetch (exporter (fresh (answers \<lparr>ResultsByTime = []\<rparr>) (prometheusMetrics |` {2}) ()))
         (world (fresh (answers \<lparr>ResultsByTime = []\<rparr>) (prometheusMetrics |` {2}) ())) =
     (Returned (Inr \<lparr>ResultsByTime = []\<rparr>), ()) \<and>
   range_order (prometheusMetrics |` {2}) [2] \<and>
   snd (Collect parse_decimal [2] (\<lambda>k. [])
          (fresh (answers \<lparr>ResultsByTime = []\<rparr>) (prometheusMetrics |` {2}) ())) = Panic \<and>
   ch (fst (Collect parse_decimal [2] (\<lambda>k. [])
          (fresh (answers \<lparr>ResultsByTime = []\<rparr>) (prometheusMetrics |` {2}) ()))) = [] \<and>
   totalScrapes (exporter (fst (Collect parse_decimal [2] (\<lambda>k. [])
          (fresh (answers \<lparr>ResultsByTime = []\<rparr>) (prometheusMetrics |` {2}) ())))) = 1"
proof -
  let ?r = "\<lparr>ResultsByTime = []\<rparr>"
  let ?s = "fresh (answers ?r) (prometheusMetrics |` {2}) ()"
  have h1: "fetch (exporter ?s) (world ?s) = (Returned (Inr ?r), ())"
    by (simp add: fresh_def answers_def)
  have h2: "ResultsByTime ?r = []" by simp
  have o1: "range_order (prometheusMetrics |` {2}) [2]"
    by (simp add: range_order_def dom_catalog)
  have h3: "range_order (prometheusMetrics_field (exporter ?s)) [2]"
    using o1 by (simp add: fresh_def)
  have ne: "prometheusMetrics_field (exporter ?s) \<noteq> Map.empty"
  proof
    assume "prometheusMetrics_field (exporter ?s) = Map.empty"
    then have "(prometheusMetrics |` {2}) 2 = None"
      by (simp add: fresh_def)
    then show False
      by (simp add: prometheusMetrics_def)
  qed
  have run: "Collect parse_decimal [2] (\<lambda>k. []) ?s =
      (?s\<lparr>exporter := Inc (exporter ?s), world := (),
           steps := steps ?s @
             [Counter_incremented, Fetch_called (totalScrapes (exporter ?s) + 1)]\<rparr>, Panic)"
    using Collect_empty_response [where ParseFloat = parse_decimal and inner = "\<lambda>k. []"
        and s = "?s", OF h1 h2 h3] ne
    by simp
  have c1: "snd (Collect parse_decimal [2] (\<lambda>k. []) ?s) = Panic"
    by (simp add: run)
  have c2: "ch (fst (Collect parse_decimal [2] (\<lambda>k. []) ?s)) = []"
    by (simp add: run) (simp add: fresh_def)
  have c3: "totalScrapes (exporter (fst (Collect parse_decimal [2] (\<lambda>k. []) ?s))) = 1"
    by (simp add: run) (simp add: fresh_def Inc_def)
  show ?thesis
    by (intro conjI) (rule h1 o1 c1 c2 c3)+
qed

section \<open>The filter\<close>

text \<open>
  Both loops over the fields of the filter stop at the first field that \<open>Atoi\<close>
  rejects, with the same error; when there is none, the one collects the integers and
  the other the AWS names under them.
\<close>

lemma selected_fields_find:
  "selected_fields ts acc =
     (case find (\<lambda>t. Atoi t = None) ts of
        Some f \<Rightarrow> Inl (Invalid_field f)
      | None \<Rightarrow> Inr (acc \<union> (\<lambda>t. the (Atoi t)) ` set ts))"
  by (induction ts arbitrary: acc) (auto split: option.splits)

lemma selected_names_find:
  "selected_names ts acc =
     (case find (\<lambda>t. Atoi t = None) ts of
        Some f \<Rightarrow> Inl (Invalid_field f)
      | None \<Rightarrow> Inr (acc @ map (\<lambda>t. index_str AWSMetrics (the (Atoi t))) ts))"
  by (induction ts arbitrary: acc) (auto split: option.splits)

lemma pick_metrics_eq:
  "pick_metrics selected ord m =
     (\<lambda>k. if k \<in> set ord \<and> k \<in> selected \<and> prometheusMetrics k \<noteq> None
          then prometheusMetrics k else m k)"
  by (induction ord arbitrary: m) (auto simp: fun_eq_iff split: option.splits)

lemma pick_metrics_range:
  assumes "range_order prometheusMetrics ord"
  shows "pick_metrics selected ord Map.empty = prometheusMetrics |` selected"
proof -
  have "set ord = dom prometheusMetrics"
    using assms by (simp add: range_order_def)
  then show ?thesis
    by (auto simp: pick_metrics_eq restrict_map_def fun_eq_iff)
qed

text \<open>
  Claim C5: when a field of the filter (one of the comma-separated pieces of a
  non-empty filter) is not a valid integer, \<open>filterServerMetrics\<close> and \<open>NewExporter\<close>
  both return an error, the same one, naming a field that \<open>Atoi\<close> rejects. An error
  result holds no descriptors and no exporter; \<open>NewExporter\<close> returns it before it
  opens the session, whatever the session would have done.
\<close>

theorem invalid_field_fails_construction:
  assumes "filter_str \<noteq> []"
    and "t \<in> set (Split filter_str CHR '','')"
    and "Atoi t = None"
  shows "\<exists>f. f \<in> set (Split filter_str CHR '','') \<and> Atoi f = None \<and>
     filterServerMetrics ord filter_str = Inl (Invalid_field f) \<and>
     NewExporter ord' sess filter_str selectedServerMetrics = Returned (Inl (Invalid_field f))"
proof -
  let ?ts = "Split filter_str CHR '',''"
  have "find (\<lambda>t. Atoi t = None) ?ts \<noteq> None"
    using assms(2,3) by (auto simp: find_None_iff)
  then obtain f where f: "find (\<lambda>t. Atoi t = None) ?ts = Some f"
    by blast
  then have "f \<in> set ?ts" "Atoi f = None"
    by (auto simp: find_Some_iff)
  moreover have "filterServerMetrics ord filter_str = Inl (Invalid_field f)"
    using assms(1) f by (simp add: filterServerMetrics_def selected_fields_find)
  moreover have
    "NewExporter ord' sess filter_str selectedServerMetrics = Returned (Inl (Invalid_field f))"
    using assms(1) f by (simp add: NewExporter_def selected_names_find)
  ultimately show ?thesis by blast
qed

theorem invalid_field_fails_construction_witness:
  "''2,x,7'' \<noteq> [] \<and> ''x'' \<in> set (Split ''2,x,7'' CHR '','') \<and> Atoi ''x'' = None \<and>
   filterServerMetrics [1, 2, 3, 4, 5, 6, 7] ''2,x,7'' = Inl (Invalid_field ''x'') \<and>
   (NewExporter [1, 2, 3, 4, 5, 6, 7] None ''2,x,7'' (prometheusMetrics |` {2, 7})
      :: (error + unit world Exporter) called) = Returned (Inl (Invalid_field ''x''))"
proof -
  have h1: "''2,x,7'' \<noteq> []" by simp
  have h2: "''x'' \<in> set (Split ''2,x,7'' CHR '','')" by simp
  have h3: "Atoi ''x'' = None" by (simp add: Atoi_def digit_val_def)
  have a2: "Atoi ''2'' = Some 2" by (simp add: Atoi_def digit_val_def)
  have a7: "Atoi ''7'' = Some 7" by (simp add: Atoi_def digit_val_def)
  from invalid_field_fails_construction
         [where ord = "[1, 2, 3, 4, 5, 6, 7]" and ord' = "[1, 2, 3, 4, 5, 6, 7]"
            and sess = None and selectedServerMetrics = "prometheusMetrics |` {2, 7}",
          OF h1 h2 h3]
  obtain f where f: "f \<in> set (Split ''2,x,7'' CHR '','')" "Atoi f = None"
    and c1: "filterServerMetrics [1, 2, 3, 4, 5, 6, 7] ''2,x,7'' = Inl (Invalid_field f)"
    and c2: "(NewExporter [1, 2, 3, 4, 5, 6, 7] None ''2,x,7'' (prometheusMetrics |` {2, 7})
      :: (error + unit world Exporter) called) = Returned (Inl (Invalid_field f))"
    by blast
  from f have "f = ''x''"
    using a2 a7 by auto
  with c1 c2 h1 h2 h3 show ?thesis by simp
qed

text \<open>
  Claim C7 says that a filter whose fields are all integers, one of them not an id of
  the catalog, is a configuration error at construction. Neither function looks whether
  an integer is an id of the catalog: for the filter \<open>9\<close> \<open>filterServerMetrics\<close>
  returns no error and no descriptor, and \<open>NewExporter\<close> returns an exporter that asks
  the service for the metric with the empty name.
\<close>

theorem unknown_id_is_accepted_counterexample:
  "Atoi ''9'' = Some 9 \<and> prometheusMetrics 9 = None \<and>
   filterServerMetrics [1, 2, 3, 4, 5, 6, 7] ''9'' = Inr Map.empty \<and>
   (NewExporter [1, 2, 3, 4, 5, 6, 7] None ''9'' Map.empty
      :: (error + unit world Exporter) called) =
     Returned (Inr \<lparr>fetch = fetchHTTP_closure [[]], totalScrapes = 0,
                     prometheusMetrics_field = Map.empty\<rparr>)"
  by (simp add: filterServerMetrics_def NewExporter_def fetchHTTP_def Atoi_def digit_val_def
      prometheusMetrics_def index_str_def AWSMetrics_def)

text \<open>
  Claim C7, amended: for a non-empty filter whose fields are all valid integers,
  construction returns no error, also when a field is not an id of the catalog.
  \<open>filterServerMetrics\<close> returns the descriptors of the catalog whose ids are among
  the fields, so that a field outside the catalog adds nothing; \<open>NewExporter\<close>, once
  the session is open, returns an exporter with the descriptors it was given, a counter
  at 0 and a fetch function that asks for the AWS names of the fields in their order,
  the empty name for a field outside the catalog.
\<close>

theorem integer_fields_construct:
  assumes "filter_str \<noteq> []"
    and "\<forall>t \<in> set (Split filter_str CHR '',''). Atoi t \<noteq> None"
    and "range_order prometheusMetrics ord"
  shows "filterServerMetrics ord filter_str =
       Inr (prometheusMetrics |` ((\<lambda>t. the (Atoi t)) ` set (Split filter_str CHR '',''))) \<and>
     NewExporter ord' None filter_str selectedServerMetrics =
       Returned (Inr \<lparr>fetch = fetchHTTP_closure
                                 (map (\<lambda>t. index_str AWSMetrics (the (Atoi t)))
                                    (Split filter_str CHR '','')),
                       totalScrapes = 0,
                       prometheusMetrics_field = selectedServerMetrics\<rparr>)"
proof -
  let ?ts = "Split filter_str CHR '',''"
  have none: "find (\<lambda>t. Atoi t = None) ?ts = None"
    using assms(2) by (auto simp: find_None_iff)
  have "filterServerMetrics ord filter_str =
       Inr (prometheusMetrics |` ((\<lambda>t. the (Atoi t)) ` set ?ts))"
    using assms(1) none
    by (simp add: filterServerMetrics_def selected_fields_find pick_metrics_range[OF assms(3)])
  moreover have "NewExporter ord' None filter_str selectedServerMetrics =
       Returned (Inr \<lparr>fetch = fetchHTTP_closure
                                 (map (\<lambda>t. index_str AWSMetrics (the (Atoi t))) ?ts),
                       totalScrapes = 0,
                       prometheusMetrics_field = selectedServerMetrics\<rparr>)"
    using assms(1) none
    by (simp add: NewExporter_def selected_names_find fetchHTTP_def)
  ultimately show ?thesis by (rule conjI)
qed

theorem integer_fields_construct_witness:
  "''2,9'' \<noteq> [] \<and> Atoi ''2'' = Some 2 \<and> Atoi ''9'' = Some 9 \<and>
   Split ''2,9'' CHR '','' = [''2'', ''9''] \<and>
   range_order prometheusMetrics [7, 6, 5, 4, 3, 2, 1] \<and>
   filterServerMetrics [7, 6, 5, 4, 3, 2, 1] ''2,9'' = Inr (prometheusMetrics |` {2, 9}) \<and>
   (prometheusMetrics |` {2, 9}) 2 = Some blended_cost_desc \<and>
   (prometheusMetrics |` {2, 9}) 9 = None \<and>
   (NewExporter [1, 2, 3, 4, 5, 6, 7] None ''2,9'' (prometheusMetrics |` {2, 9})
      :: (error + unit world Exporter) called) =
     Returned (Inr \<lparr>fetch = fetchHTTP_closure [''BlendedCost'', []], totalScrapes = 0,
                     prometheusMetrics_field = prometheusMetrics |` {2, 9}\<rparr>)"
proof -
  have h1: "''2,9'' \<noteq> []" by simp
  have a2: "Atoi ''2'' = Some 2" by (simp add: Atoi_def digit_val_def)
  have a9: "Atoi ''9'' = Some 9" by (simp add: Atoi_def digit_val_def)
  have sp: "Split ''2,9'' CHR '','' = [''2'', ''9'']" by simp
  have h2: "\<forall>t \<in> set (Split ''2,9'' CHR '',''). Atoi t \<noteq> None"
    using a2 a9 by (simp add: sp)
  have h3: "range_order prometheusMetrics [7, 6, 5, 4, 3, 2, 1]"
    by (auto simp: range_order_def dom_catalog)
  have d2: "(prometheusMetrics |` {2, 9}) 2 = Some blended_cost_desc"
    by (simp add: prometheusMetrics_def blended_cost_desc_def)
  have d9: "(prometheusMetrics |` {2, 9}) 9 = None"
    by (simp add: prometheusMetrics_def)
  have ix2: "index_str AWSMetrics 2 = ''BlendedCost''"
    by (simp add: index_str_def AWSMetrics_def)
  have ix9: "index_str AWSMetrics 9 = []"
    by (simp add: index_str_def AWSMetrics_def)
  from integer_fields_construct
         [where ord' = "[1, 2, 3, 4, 5, 6, 7]"
            and selectedServerMetrics = "prometheusMetrics |` {2, 9}", OF h1 h2 h3]
  have c1: "filterServerMetrics [7, 6, 5, 4, 3, 2, 1] ''2,9'' =
       Inr (prometheusMetrics |` ((\<lambda>t. the (Atoi t)) ` set (Split ''2,9'' CHR '','')))"
    and c2: "(NewExporter [1, 2, 3, 4, 5, 6, 7] None ''2,9'' (prometheusMetrics |` {2, 9})
        :: (error + unit world Exporter) called) =
       Returned (Inr \<lparr>fetch = fetchHTTP_closure
                                 (map (\<lambda>t. index_str AWSMetrics (the (Atoi t)))
                                    (Split ''2,9'' CHR '','')),
                       totalScrapes = 0,
                       prometheusMetrics_field = prometheusMetrics |` {2, 9}\<rparr>)"
    by blast+
  have c1': "filterServerMetrics [7, 6, 5, 4, 3, 2, 1] ''2,9'' = Inr (prometheusMetrics |` {2, 9})"
    using c1 by (simp add: sp a2 a9)
  have c2': "(NewExporter [1, 2, 3, 4, 5, 6, 7] None ''2,9'' (prometheusMetrics |` {2, 9})
        :: (error + unit world Exporter) called) =
     Returned (Inr \<lparr>fetch = fetchHTTP_closure [''BlendedCost'', []], totalScrapes = 0,
                     prometheusMetrics_field = prometheusMetrics |` {2, 9}\<rparr>)"
    using c2 by (simp add: sp a2 a9 ix2 ix9)
  show ?thesis
    by (intro conjI) (rule h1 a2 a9 sp h3 c1' d2 d9 c2')+
qed

section \<open>The fetch function\<close>

text \<open>
  Every call of the fetch function sends one request, with the granularity \<open>DAILY\<close>
  and a time period made from the next two readings of the clock, and returns what the
  service answers to it: the response or the error, unchanged.
\<close>

lemma fetchHTTP_closure_answer:
  "fst (fetchHTTP_closure metrics w) =
     Returned (fst (respond w (service w)
       \<lparr>Metrics = metrics, Granularity = ''DAILY'',
        TimePeriod = \<lparr>Start = Format (AddDate (clock w (readings w)) 0 0 (- 1)),
                      End = Format (clock w (readings w + 1))\<rparr>\<rparr>))"
  by (simp add: fetchHTTP_closure_def Now_def GetCostAndUsage_def Let_def
      split: prod.splits sum.splits)

lemma fetchHTTP_closure_requests:
  "requests (snd (fetchHTTP_closure metrics w)) =
     requests w @
       [\<lparr>Metrics = metrics, Granularity = ''DAILY'',
         TimePeriod = \<lparr>Start = Format (AddDate (clock w (readings w)) 0 0 (- 1)),
                       End = Format (clock w (readings w + 1))\<rparr>\<rparr>]"
  by (simp add: fetchHTTP_closure_def Now_def GetCostAndUsage_def Let_def
      split: prod.splits sum.splits)

lemma day_before_new_year:
  "Format (AddDate (at_time 2019 1 1 23 59 59) 0 0 (- 1)) = ''2018-12-31''"
  by code_simp

lemma day_after_new_year:
  "Format (at_time 2019 1 2 0 0 0) = ''2019-01-02''"
  by code_simp

text \<open>
  Claim C8 says that every call of the fetch function asks for the granularity
  \<open>DAILY\<close> and the time period from yesterday's local date to today's, and returns an
  error of the service as it is, with no retry and no caching. The fetch function sends
  one request per call and returns the answer unchanged (the two lemmas above), and the
  granularity is \<open>DAILY\<close>. The two ends of the period come from two readings
  of the clock. Below, the first reading is 2019-01-01 23:59:59 and the second
  2019-01-02 00:00:00: the request starts at 2018-12-31 and ends at 2019-01-02, two days
  and not from yesterday to today of any one day.
\<close>

theorem fetch_across_midnight:
  "requests (snd (fetchHTTP_closure [''BlendedCost'']
      (steady_world (at_time 2019 1 1 23 59 59) (at_time 2019 1 2 0 0 0)
         (Inl (Service_error ''throttled''))))) =
     [\<lparr>Metrics = [''BlendedCost''], Granularity = ''DAILY'',
       TimePeriod = \<lparr>Start = ''2018-12-31'', End = ''2019-01-02''\<rparr>\<rparr>] \<and>
   fst (fetchHTTP_closure [''BlendedCost'']
      (steady_world (at_time 2019 1 1 23 59 59) (at_time 2019 1 2 0 0 0)
         (Inl (Service_error ''throttled'')))) =
     Returned (Inl (Service_error ''throttled''))"
proof -
  let ?w = "steady_world (at_time 2019 1 1 23 59 59) (at_time 2019 1 2 0 0 0)
              (Inl (Service_error ''throttled''))"
  have t1: "clock ?w (readings ?w) = at_time 2019 1 1 23 59 59"
    by (simp add: steady_world_def)
  have t2: "clock ?w (readings ?w + 1) = at_time 2019 1 2 0 0 0"
    by (simp add: steady_world_def)
  have q: "requests ?w = []"
    by (simp add: steady_world_def)
  have c1: "requests (snd (fetchHTTP_closure [''BlendedCost''] ?w)) =
     [\<lparr>Metrics = [''BlendedCost''], Granularity = ''DAILY'',
       TimePeriod = \<lparr>Start = ''2018-12-31'', End = ''2019-01-02''\<rparr>\<rparr>]"
    by (simp only: fetchHTTP_closure_requests t1 t2 q day_before_new_year day_after_new_year
        append_Nil)
  have c2: "fst (fetchHTTP_closure [''BlendedCost''] ?w) =
     Returned (Inl (Service_error ''throttled''))"
    by (simp add: fetchHTTP_closure_answer) (simp add: steady_world_def)
  show ?thesis
    by (intro conjI) (rule c1 c2)+
qed

section \<open>The empty filter\<close>

lemma all_names_catalog_order:
  "all_names [1, 2, 3, 4, 5, 6, 7] [] = all_names_sorted"
  by (simp add: AWSMetrics_def all_names_sorted_def)

text \<open>
  Claim C1 says that the empty filter enables all seven metrics of the catalog, so that
  a successful \<open>Collect\<close> sends a sample for each of them that the response holds.
  \<open>NewExporter\<close> does take the empty filter for all seven: it asks the service for
  every AWS name. \<open>filterServerMetrics\<close> returns no descriptor for it, and \<open>main\<close>
  hands that empty selection to \<open>NewExporter\<close>; the exporter then sends no cost
  sample, whatever the response holds. Below, the response has an item with a parsable
  amount under each of the seven names, and \<open>Collect\<close> sends the gauge \<open>up\<close> and the
  counter only.
\<close>

theorem empty_filter_sends_no_cost_sample:
  "filterServerMetrics [1, 2, 3, 4, 5, 6, 7] [] = Inr Map.empty \<and>
   (NewExporter [1, 2, 3, 4, 5, 6, 7] None [] Map.empty
      :: (error + unit world Exporter) called) =
     Returned (Inr \<lparr>fetch = fetchHTTP_closure all_names_sorted, totalScrapes = 0,
                     prometheusMetrics_field = Map.empty\<rparr>) \<and>
   fst (fetchHTTP_closure all_names_sorted
          (steady_world (at_time 2019 7 15 12 0 0) (at_time 2019 7 15 12 0 0)
             (Inr \<lparr>ResultsByTime = [full_bucket]\<rparr>))) =
     Returned (Inr \<lparr>ResultsByTime = [full_bucket]\<rparr>) \<and>
   Total full_bucket ''BlendedCost'' = Some \<lparr>Amount = Some ''1.5'', Unit = Some ''USD''\<rparr> \<and>
   ch (fst (Collect parse_decimal [] (\<lambda>k. all_names_sorted)
              (fresh (fetchHTTP_closure all_names_sorted) Map.empty
                 (steady_world (at_time 2019 7 15 12 0 0) (at_time 2019 7 15 12 0 0)
                    (Inr \<lparr>ResultsByTime = [full_bucket]\<rparr>))))) =
     [ConstMetric awsBillingUp 1 [], CounterMetric 1] \<and>
   snd (Collect parse_decimal [] (\<lambda>k. all_names_sorted)
              (fresh (fetchHTTP_closure all_names_sorted) Map.empty
                 (steady_world (at_time 2019 7 15 12 0 0) (at_time 2019 7 15 12 0 0)
                    (Inr \<lparr>ResultsByTime = [full_bucket]\<rparr>)))) = Normal"
proof -
  let ?r = "\<lparr>ResultsByTime = [full_bucket]\<rparr>"
  let ?w = "steady_world (at_time 2019 7 15 12 0 0) (at_time 2019 7 15 12 0 0) (Inr ?r)"
  let ?s = "fresh (fetchHTTP_closure all_names_sorted) Map.empty ?w"
  have c1: "filterServerMetrics [1, 2, 3, 4, 5, 6, 7] [] = Inr Map.empty"
    by (simp add: filterServerMetrics_def)
  have c2: "(NewExporter [1, 2, 3, 4, 5, 6, 7] None [] Map.empty
      :: (error + unit world Exporter) called) =
     Returned (Inr \<lparr>fetch = fetchHTTP_closure all_names_sorted, totalScrapes = 0,
                     prometheusMetrics_field = Map.empty\<rparr>)"
    by (simp add: NewExporter_def fetchHTTP_def all_names_catalog_order del: all_names.simps)
  have c3: "fst (fetchHTTP_closure all_names_sorted ?w) = Returned (Inr ?r)"
    by (simp add: fetchHTTP_closure_answer) (simp add: steady_world_def)
  have c4: "Total full_bucket ''BlendedCost'' =
      Some \<lparr>Amount = Some ''1.5'', Unit = Some ''USD''\<rparr>"
    by (simp add: full_bucket_def all_names_sorted_def)
  obtain w' where f: "fetchHTTP_closure all_names_sorted ?w = (Returned (Inr ?r), w')"
    using c3 by (cases "fetchHTTP_closure all_names_sorted ?w") simp
  have run: "Collect parse_decimal [] (\<lambda>k. all_names_sorted) ?s =
      (?s\<lparr>exporter := Inc (exporter ?s), world := w',
           ch := ch ?s @ [ConstMetric awsBillingUp 1 [],
                          CounterMetric (totalScrapes (exporter ?s) + 1)],
           steps := steps ?s @
             [Counter_incremented, Fetch_called (totalScrapes (exporter ?s) + 1)]\<rparr>, Normal)"
    using f
    by (simp add: Collect_def scrape_def inc_totalScrapes_def call_fetch_def Inc_def fresh_def
        MustNewConstMetric_def awsBillingUp_def NewDesc_def)
  have c5: "ch (fst (Collect parse_decimal [] (\<lambda>k. all_names_sorted) ?s)) =
      [ConstMetric awsBillingUp 1 [], CounterMetric 1]"
    by (simp add: run) (simp add: fresh_def)
  have c6: "snd (Collect parse_decimal [] (\<lambda>k. all_names_sorted) ?s) = Normal"
    by (simp add: run)
  show ?thesis
    by (intro conjI) (rule c1 c2 c3 c4 c5 c6)+
qed

end
